theory Spec2Isabelle
  imports Complex_Main "HOL-Library.Char_ord" "HOL-Library.List_Lexorder"
begin

section \<open>Shared data: JSON values and Python dictionaries\<close>

text \<open>
  Every result the suites, the runner, the report generator and the dashboard exchange is
  a JSON document. A Python \<open>dict\<close> keeps its keys in insertion order, so an object is
  an association list. Numbers that are floats in the source are kept as reals.
\<close>

datatype json =
    JNull
  | JBool bool
  | JInt int
  | JNum real
  | JStr string
  | JArr "json list"
  | JObj "(string \<times> json) list"

type_synonym 'v dict = "(string \<times> 'v) list"

text \<open>\<open>d[k] = v\<close>: an existing key keeps its place, a new key goes to the end.\<close>

fun dict_set :: "string \<Rightarrow> 'v \<Rightarrow> 'v dict \<Rightarrow> 'v dict" where
  "dict_set k v [] = [(k, v)]"
| "dict_set k v ((k', v') # kvs) =
     (if k = k' then (k, v) # kvs else (k', v') # dict_set k v kvs)"

text \<open>\<open>d.get(k, default)\<close>, \<open>d.values()\<close>, \<open>k in d\<close>.\<close>

definition dict_get :: "'v dict \<Rightarrow> string \<Rightarrow> 'v \<Rightarrow> 'v" where
  "dict_get d k dflt = (case map_of d k of Some v \<Rightarrow> v | None \<Rightarrow> dflt)"

definition dict_values :: "'v dict \<Rightarrow> 'v list" where
  "dict_values d = map snd d"

definition dict_has :: "'v dict \<Rightarrow> string \<Rightarrow> bool" where
  "dict_has d k = (map_of d k \<noteq> None)"

text \<open>\<open>obj[k]\<close> on a JSON value; \<open>None\<close> stands for the \<open>KeyError\<close> / \<open>TypeError\<close>.\<close>

fun subscript :: "json \<Rightarrow> string \<Rightarrow> json option" where
  "subscript (JObj kvs) k = map_of kvs k"
| "subscript _ k = None"

text \<open>\<open>datetime.now()\<close>, seen through the three renderings the code takes of it:
  \<open>isoformat()\<close>, \<open>strftime('%Y%m%d_%H%M%S')\<close> and
  \<open>strftime('%Y-%m-%d %H:%M:%S')\<close>.\<close>

record datetime =
  isoformat :: string
  stamp :: string
  readable :: string

section \<open>Exceptions\<close>

text \<open>The Python exceptions that a modelled operation can raise.\<close>

datatype py_error =
    ZeroDivisionError
  | FileNotFoundError
  | JSONDecodeError
  | AttributeError
  | KeyError
  | TypeError
  | IndexError
  | OtherError string

section \<open>The test runner (run\_tests.py)\<close>

text \<open>
  The runner's surroundings: what \<open>subprocess.run\<close> does with each command line,
  whether the command, when it runs, leaves a \<open>reports\<close> directory behind (the security
  and validation scripts create one before they write their report), whether that
  directory is there before the run, the clock, and whether the fixture file exists.

  The runner's effects are kept as one history of events in the order they happen, a
  command launched or a file written, together with whether the \<open>reports\<close> directory
  exists. Console output is not part of the state.
\<close>

datatype proc_outcome =
    Completed int string string
  | Raised string

record cmd_result =
  success :: bool
  stdout :: string
  stderr :: string
  return_code :: int

record env =
  shell :: "string \<Rightarrow> proc_outcome"
  makes_reports :: "string \<Rightarrow> bool"
  reports_present :: bool
  now :: datetime
  data_file_exists :: bool

datatype event =
    Launched string
  | Wrote string json

record world =
  history :: "event list"
  reports_dir :: bool

definition run_command :: "env \<Rightarrow> string \<Rightarrow> world \<Rightarrow> cmd_result \<times> world" where
  "run_command e command w =
     (case shell e command of
        Completed rc out err \<Rightarrow>
          (\<lparr>success = (rc = 0), stdout = out, stderr = err, return_code = rc\<rparr>,
           w\<lparr>history := history w @ [Launched command],
             reports_dir := reports_dir w \<or> makes_reports e command\<rparr>)
      | Raised msg \<Rightarrow>
          (\<lparr>success = False, stdout = [], stderr = msg, return_code = - 1\<rparr>,
           w\<lparr>history := history w @ [Launched command]\<rparr>))"

definition mongo_ping_command :: string where
  "mongo_ping_command = ''mongosh --eval 'db.runCommand({ping: 1})' --quiet''"

text \<open>\<open>setup_environment\<close> first creates the directories
  (\<open>os.makedirs("reports", exist_ok=True)\<close>), then pings the database.\<close>

definition setup_environment :: "env \<Rightarrow> world \<Rightarrow> bool \<times> world" where
  "setup_environment e w =
     (let w = w\<lparr>reports_dir := True\<rparr>;
          (mongo_check, w') = run_command e mongo_ping_command w
      in if \<not> success mongo_check then (False, w') else (True, w'))"

definition crud_command :: string where
  "crud_command = ''python automation-scripts/mongodb_crud_tests.py''"

definition performance_command :: string where
  "performance_command = ''python automation-scripts/mongodb_performance_tests.py''"

definition security_command :: string where
  "security_command = ''python automation-scripts/mongodb_security_tests.py''"

definition validation_command :: string where
  "validation_command = ''python automation-scripts/mongodb_data_validation.py''"

definition run_functional_tests :: "env \<Rightarrow> world \<Rightarrow> bool \<times> world" where
  "run_functional_tests e w =
     (let (result, w') = run_command e crud_command w in (success result, w'))"

definition run_performance_tests :: "env \<Rightarrow> world \<Rightarrow> bool \<times> world" where
  "run_performance_tests e w =
     (let (result, w') = run_command e performance_command w in (success result, w'))"

definition run_security_tests :: "env \<Rightarrow> world \<Rightarrow> bool \<times> world" where
  "run_security_tests e w =
     (let (result, w') = run_command e security_command w in (success result, w'))"

definition run_data_validation_tests :: "env \<Rightarrow> world \<Rightarrow> bool \<times> world" where
  "run_data_validation_tests e w =
     (let (result, w') = run_command e validation_command w in (success result, w'))"

definition load_test_data :: "env \<Rightarrow> bool" where
  "load_test_data e = (if data_file_exists e then True else False)"

definition status_of :: "bool \<Rightarrow> json" where
  "status_of b = JStr (if b then ''PASS'' else ''FAIL'')"

definition recommendations :: "json list" where
  "recommendations =
     [JStr ''Review failed test cases and address issues'',
      JStr ''Monitor performance metrics trends'',
      JStr ''Implement security recommendations'',
      JStr ''Maintain data quality standards'',
      JStr ''Update test cases as system evolves'']"

definition summary_report :: "datetime \<Rightarrow> bool dict \<Rightarrow> json" where
  "summary_report timestamp results =
     JObj
       [(''test_execution_summary'',
           JObj
             [(''timestamp'', JStr (isoformat timestamp)),
              (''total_suites'', JInt (int (length results))),
              (''passed_suites'',
                 JInt (int (length (filter (\<lambda>r. r) (dict_values results))))),
              (''failed_suites'',
                 JInt (int (length (filter (\<lambda>r. \<not> r) (dict_values results))))),
              (''overall_status'', status_of (list_all (\<lambda>r. r) (dict_values results)))]),
        (''suite_results'',
           JObj
             [(''functional_tests'', status_of (dict_get results ''functional'' False)),
              (''performance_tests'', status_of (dict_get results ''performance'' False)),
              (''security_tests'', status_of (dict_get results ''security'' False)),
              (''data_validation_tests'',
                 status_of (dict_get results ''validation'' False))]),
        (''recommendations'', JArr recommendations)]"

definition summary_filename :: "datetime \<Rightarrow> string" where
  "summary_filename timestamp = ''reports/test_summary_'' @ stamp timestamp @ ''.json''"

text \<open>\<open>generate_summary_report\<close> builds the report and opens the file for writing.
  It does not create the directory: without it \<open>open\<close> raises.\<close>

definition generate_summary_report ::
  "env \<Rightarrow> bool dict \<Rightarrow> world \<Rightarrow> py_error + json \<times> world" where
  "generate_summary_report e results w =
     (let timestamp = now e;
          report = summary_report timestamp results;
          report_filename = summary_filename timestamp
      in if reports_dir w
         then Inr (report, w\<lparr>history := history w @ [Wrote report_filename report]\<rparr>)
         else Inl FileNotFoundError)"

datatype suite_choice = All | Functional | Performance | Security | Validation

fun suite_name :: "suite_choice \<Rightarrow> string" where
  "suite_name All = ''all''"
| "suite_name Functional = ''functional''"
| "suite_name Performance = ''performance''"
| "suite_name Security = ''security''"
| "suite_name Validation = ''validation''"

record args =
  suite :: suite_choice
  skip_setup :: bool
  load_data :: bool

text \<open>The four \<open>if args.suite in [...]\<close> statements of \<open>main\<close>, in their order.\<close>

definition run_selected :: "args \<Rightarrow> env \<Rightarrow> world \<Rightarrow> bool dict \<times> world" where
  "run_selected a e w =
     (let results = [];
          (results, w) =
            (if suite_name (suite a) \<in> set [''all'', ''functional'']
             then (let (r, w') = run_functional_tests e w
                   in (dict_set ''functional'' r results, w'))
             else (results, w));
          (results, w) =
            (if suite_name (suite a) \<in> set [''all'', ''performance'']
             then (let (r, w') = run_performance_tests e w
                   in (dict_set ''performance'' r results, w'))
             else (results, w));
          (results, w) =
            (if suite_name (suite a) \<in> set [''all'', ''security'']
             then (let (r, w') = run_security_tests e w
                   in (dict_set ''security'' r results, w'))
             else (results, w));
          (results, w) =
            (if suite_name (suite a) \<in> set [''all'', ''validation'']
             then (let (r, w') = run_data_validation_tests e w
                   in (dict_set ''validation'' r results, w'))
             else (results, w))
      in (results, w))"

text \<open>\<open>main\<close> returns the process exit code and the effects of the run. An exception
  that nothing catches ends the process with exit code 1.\<close>

definition main :: "args \<Rightarrow> env \<Rightarrow> int \<times> world" where
  "main a e =
     (let w = \<lparr>history = [], reports_dir = reports_present e\<rparr>;
          (ready, w) = (if \<not> skip_setup a then setup_environment e w else (True, w))
      in if \<not> ready then (1, w)
         else
           let loaded = (if load_data a then load_test_data e else False);
               (results, w) = run_selected a e w
           in case generate_summary_report e results w of
                Inl err \<Rightarrow> (1, w)
              | Inr (report, w) \<Rightarrow>
                  if Option.bind (subscript report ''test_execution_summary'')
                       (\<lambda>s. subscript s ''overall_status'') = Some (JStr ''PASS'')
                  then (0, w) else (1, w))"

text \<open>
  The vocabulary of the claims about the runner: the command lines launched and the files
  written in a history, the suites a selection asks for, the command line of each, the
  exit status a command line returns (none when launching it raised), whether the run
  gets past the environment check, and whether the \<open>reports\<close> directory exists when
  the summary is to be written.
\<close>

fun launches :: "event list \<Rightarrow> string list" where
  "launches [] = []"
| "launches (Launched c # evs) = c # launches evs"
| "launches (Wrote f r # evs) = launches evs"

fun writes :: "event list \<Rightarrow> (string \<times> json) list" where
  "writes [] = []"
| "writes (Launched c # evs) = writes evs"
| "writes (Wrote f r # evs) = (f, r) # writes evs"

definition launched :: "world \<Rightarrow> string list" where
  "launched w = launches (history w)"

definition written :: "world \<Rightarrow> (string \<times> json) list" where
  "written w = writes (history w)"

fun selected :: "suite_choice \<Rightarrow> suite_choice list" where
  "selected All = [Functional, Performance, Security, Validation]"
| "selected s = [s]"

fun suite_command :: "suite_choice \<Rightarrow> string" where
  "suite_command Functional = crud_command"
| "suite_command Performance = performance_command"
| "suite_command Security = security_command"
| "suite_command Validation = validation_command"
| "suite_command All = []"

definition exit_status :: "env \<Rightarrow> string \<Rightarrow> int option" where
  "exit_status e command =
     (case shell e command of Completed rc out err \<Rightarrow> Some rc | Raised msg \<Rightarrow> None)"

definition passes_setup :: "args \<Rightarrow> env \<Rightarrow> bool" where
  "passes_setup a e = (skip_setup a \<or> exit_status e mongo_ping_command = Some 0)"

definition leaves_reports :: "env \<Rightarrow> string \<Rightarrow> bool" where
  "leaves_reports e command = (exit_status e command \<noteq> None \<and> makes_reports e command)"

definition summary_writable :: "args \<Rightarrow> env \<Rightarrow> bool" where
  "summary_writable a e =
     (\<not> skip_setup a \<or> reports_present e
      \<or> (\<exists>s \<in> set (selected (suite a)). leaves_reports e (suite_command s)))"

text \<open>The result dictionary of a run, and the events before the summary.\<close>

definition suite_outcomes :: "args \<Rightarrow> env \<Rightarrow> bool dict" where
  "suite_outcomes a e =
     map (\<lambda>s. (suite_name s, exit_status e (suite_command s) = Some 0)) (selected (suite a))"

definition suite_events :: "args \<Rightarrow> event list" where
  "suite_events a =
     (if skip_setup a then [] else [Launched mongo_ping_command])
     @ map (\<lambda>s. Launched (suite_command s)) (selected (suite a))"

fun result_key :: "suite_choice \<Rightarrow> string" where
  "result_key Functional = ''functional_tests''"
| "result_key Performance = ''performance_tests''"
| "result_key Security = ''security_tests''"
| "result_key Validation = ''data_validation_tests''"
| "result_key All = []"

text \<open>
  Concrete surroundings. \<open>all_green\<close>: the \<open>reports\<close> directory is there and every
  command returns 0. \<open>fresh_checkout\<close>: every command returns 0 but the directory is
  not there; the security and validation scripts would create it. \<open>no_python\<close>: the
  directory is not there and no script starts, the shell returns 127 for every command.
\<close>

definition ten_o_clock :: datetime where
  "ten_o_clock = \<lparr>isoformat = ''2024-01-01T10:00:00'', stamp = ''20240101_100000'',
                  readable = ''2024-01-01 10:00:00''\<rparr>"

definition all_green :: env where
  "all_green =
     \<lparr>shell = (\<lambda>c. Completed 0 [] []),
      makes_reports = (\<lambda>c. c = security_command \<or> c = validation_command),
      reports_present = True,
      now = ten_o_clock,
      data_file_exists = True\<rparr>"

definition fresh_checkout :: env where
  "fresh_checkout =
     \<lparr>shell = (\<lambda>c. Completed 0 [] []),
      makes_reports = (\<lambda>c. c = security_command \<or> c = validation_command),
      reports_present = False,
      now = ten_o_clock,
      data_file_exists = True\<rparr>"

definition no_python :: env where
  "no_python =
     \<lparr>shell = (\<lambda>c. Completed 127 [] ''python: not found''),
      makes_reports = (\<lambda>c. False),
      reports_present = False,
      now = ten_o_clock,
      data_file_exists = True\<rparr>"

section \<open>Throughput figures of the performance suite (mongodb\_performance\_tests.py)\<close>

text \<open>
  Elapsed times are differences of \<open>time.time()\<close> readings. They are floats in the
  source and reals here: the guards and the division fault depend only on whether the
  divisor is zero or positive. Python's \<open>/\<close> raises on a zero divisor.
\<close>

definition true_div :: "real \<Rightarrow> real \<Rightarrow> py_error + real" where
  "true_div a b = (if b = 0 then Inl ZeroDivisionError else Inr (a / b))"

text \<open>A conditional expression \<open>a / b if b > 0 else 0\<close>; the else branch is the
  integer literal.\<close>

definition guarded_rate :: "real \<Rightarrow> real \<Rightarrow> py_error + json" where
  "guarded_rate a b =
     (if b > 0 then (case true_div a b of Inl err \<Rightarrow> Inl err | Inr q \<Rightarrow> Inr (JNum q))
      else Inr (JInt 0))"

text \<open>The result dictionary of \<open>test_insert_performance\<close>, from the two measured times.\<close>

definition insert_performance_result :: "int \<Rightarrow> real \<Rightarrow> real \<Rightarrow> py_error + json" where
  "insert_performance_result document_count single_insert_time bulk_insert_time =
     (case guarded_rate 100 single_insert_time of
        Inl err \<Rightarrow> Inl err
      | Inr single_insert_rate \<Rightarrow>
          (case guarded_rate (real_of_int document_count) bulk_insert_time of
             Inl err \<Rightarrow> Inl err
           | Inr bulk_insert_rate \<Rightarrow>
               Inr (JObj
                 [(''test_type'', JStr ''insert_performance''),
                  (''single_insert_time'', JNum single_insert_time),
                  (''bulk_insert_time'', JNum bulk_insert_time),
                  (''documents_count'', JInt document_count),
                  (''single_insert_rate'', single_insert_rate),
                  (''bulk_insert_rate'', bulk_insert_rate)])))"

text \<open>One entry of \<open>query_times\<close> in \<open>test_query_performance\<close>: the query text, the
  two clock readings around its loop and the number of iterations.\<close>

definition query_time_entry :: "string \<Rightarrow> real \<Rightarrow> real \<Rightarrow> int \<Rightarrow> py_error + json" where
  "query_time_entry query start_time end_time iterations =
     (case true_div (end_time - start_time) (real_of_int iterations) of
        Inl err \<Rightarrow> Inl err
      | Inr avg_query_time \<Rightarrow>
          (case guarded_rate 1 avg_query_time of
             Inl err \<Rightarrow> Inl err
           | Inr queries_per_second \<Rightarrow>
               Inr (JObj
                 [(''query'', JStr query),
                  (''avg_time'', JNum avg_query_time),
                  (''queries_per_second'', queries_per_second)])))"

text \<open>The result dictionary of \<open>test_concurrent_operations\<close>, from the measured
  \<open>total_time\<close>.\<close>

definition concurrent_operations_result :: "int \<Rightarrow> int \<Rightarrow> real \<Rightarrow> py_error + json" where
  "concurrent_operations_result num_threads operations_per_thread total_time =
     (case true_div (real_of_int (num_threads * operations_per_thread)) total_time of
        Inl err \<Rightarrow> Inl err
      | Inr operations_per_second \<Rightarrow>
          Inr (JObj
            [(''test_type'', JStr ''concurrent_operations''),
             (''num_threads'', JInt num_threads),
             (''operations_per_thread'', JInt operations_per_thread),
             (''total_operations'', JInt (num_threads * operations_per_thread)),
             (''total_time'', JNum total_time),
             (''operations_per_second'', JNum operations_per_second)]))"

section \<open>The input validator of the security suite (mongodb\_security\_tests.py)\<close>

text \<open>
  A Python \<open>str\<close> is a sequence of code points and \<open>len\<close> counts them, so the
  validator's argument carries a list of code points. The other shapes the test feeds in
  are a dictionary and \<open>None\<close>.
\<close>

datatype pyobj =
    Str "nat list"
  | Dict "(pyobj \<times> pyobj) list"
  | NoneObj

definition codepoints :: "string \<Rightarrow> nat list" where
  "codepoints s = map of_char s"

text \<open>\<open>s.startswith(p)\<close> and the substring test \<open>sub in s\<close>.\<close>

fun startswith :: "'a list \<Rightarrow> 'a list \<Rightarrow> bool" where
  "startswith s [] = True"
| "startswith [] (p # ps) = False"
| "startswith (c # cs) (p # ps) = (c = p \<and> startswith cs ps)"

fun str_contains :: "'a list \<Rightarrow> 'a list \<Rightarrow> bool" where
  "str_contains sub [] = (sub = [])"
| "str_contains sub (c # cs) = (startswith (c # cs) sub \<or> str_contains sub cs)"

definition validate_user_input :: "pyobj \<Rightarrow> bool" where
  "validate_user_input username =
     (case username of
        Str s \<Rightarrow>
          if length s > 50 then False
          else if list_ex (\<lambda>char. str_contains char s)
                    [codepoints ''$'', codepoints ''{'', codepoints ''}'', codepoints '';'']
          then False
          else True
      | _ \<Rightarrow> False)"

definition test_inputs :: "pyobj list" where
  "test_inputs =
     [Str (codepoints ''admin''),
      Str (codepoints ''user1''),
      Str (codepoints ''$ne''),
      Str (codepoints ''admin; drop table users;''),
      Dict [(Str (codepoints ''$ne''), NoneObj)]]"

definition expected_results :: "bool list" where
  "expected_results = [True, True, False, False, False]"

definition actual_results :: "bool list" where
  "actual_results = map validate_user_input test_inputs"

text \<open>The test case that \<open>test_injection_attacks\<close> records for the validator.\<close>

definition input_validation_case :: json where
  "input_validation_case =
     (if actual_results = expected_results
      then JObj [(''test'', JStr ''Input Validation''), (''status'', JStr ''PASS''),
                 (''details'',
                    JStr ''Input validation correctly identifies safe/unsafe inputs'')]
      else JObj [(''test'', JStr ''Input Validation''), (''status'', JStr ''FAIL''),
                 (''details'', JStr ''Input validation failed'')])"

section \<open>The balance-mutation test of the data-validation suite (mongodb\_data\_validation.py)\<close>

text \<open>
  The collection under test lives in the database, which is outside the repository:
  what \<open>$inc\<close> and \<open>$push\<close> do to the stored document, and in which arithmetic, is
  the database's business. The test is therefore modelled over any store: a store gives
  the four operations the test calls, each able to raise, over a state of its own. A
  document read back is a dictionary of JSON values; a double read back is the real
  number it denotes.
\<close>

type_synonym document = "json dict"


text \<open>Sequencing of operations that may raise.\<close>

definition bind_result :: "py_error + 'a \<Rightarrow> ('a \<Rightarrow> py_error + 'b) \<Rightarrow> py_error + 'b" where
  "bind_result r f = (case r of Inl err \<Rightarrow> Inl err | Inr x \<Rightarrow> f x)"
















section \<open>Persisted result files\<close>

text \<open>
  The reports directory is a flat directory of JSON files. An entry gives a file's name
  and what \<open>json.load\<close> makes of it: \<open>None\<close> when the content is not valid JSON.
  \<open>os.listdir\<close> returns the names in an arbitrary order, here the order of the list.
\<close>

type_synonym directory = "(string \<times> json option) list"

definition listdir :: "directory \<Rightarrow> string list" where
  "listdir d = map fst d"

definition path_exists :: "directory \<Rightarrow> string \<Rightarrow> bool" where
  "path_exists d f = (map_of d f \<noteq> None)"

text \<open>\<open>with open(path, "r") as f: json.load(f)\<close>\<close>

definition load_file :: "directory \<Rightarrow> string \<Rightarrow> py_error + json" where
  "load_file d f =
     (case map_of d f of
        None \<Rightarrow> Inl FileNotFoundError
      | Some None \<Rightarrow> Inl JSONDecodeError
      | Some (Some j) \<Rightarrow> Inr j)"

text \<open>A block of statements working on one mutable object: the statements run in order
  until one raises; the object keeps what the earlier statements did to it.\<close>

fun run_steps :: "('s \<Rightarrow> py_error + 's) list \<Rightarrow> 's \<Rightarrow> 's \<times> py_error option" where
  "run_steps [] s = (s, None)"
| "run_steps (step # steps) s =
     (case step s of Inl err \<Rightarrow> (s, Some err) | Inr s' \<Rightarrow> run_steps steps s')"

text \<open>\<open>if os.path.exists(file): results[key] = json.load(...)\<close>\<close>

definition load_if_exists ::
  "directory \<Rightarrow> string \<Rightarrow> string \<Rightarrow> json dict \<Rightarrow> py_error + json dict" where
  "load_if_exists d fname key results =
     (if path_exists d fname
      then bind_result (load_file d fname) (\<lambda>j. Inr (dict_set key j results))
      else Inr results)"

text \<open>The files whose name starts with a prefix; if there are any, the last one in
  sorted order is loaded: \<open>sorted(files)[-1]\<close>.\<close>

definition load_latest ::
  "directory \<Rightarrow> string \<Rightarrow> string \<Rightarrow> json dict \<Rightarrow> py_error + json dict" where
  "load_latest d pre key results =
     (let files = filter (\<lambda>f. startswith f pre) (listdir d)
      in if files \<noteq> []
         then (let latest = last (sort files)
               in bind_result (load_file d latest) (\<lambda>j. Inr (dict_set key j results)))
         else Inr results)"

section \<open>The report generator (report\_generator.py)\<close>

text \<open>\<open>TestReportGenerator.load_latest_results\<close>. The constructor has created the
  reports directory if it was missing.\<close>

definition generator_load_latest_results :: "directory \<Rightarrow> py_error + json dict" where
  "generator_load_latest_results d =
     bind_result (load_if_exists d ''crud_test_results.json'' ''crud'' []) (\<lambda>results.
     bind_result (load_if_exists d ''performance_test_results.json'' ''performance'' results)
       (\<lambda>results.
     bind_result (load_if_exists d ''security_test_results.json'' ''security'' results)
       (\<lambda>results.
     bind_result (load_if_exists d ''data_validation_results.json'' ''validation'' results)
       (\<lambda>results.
     load_latest d ''test_summary_'' ''summary'' results))))"

text \<open>Python on JSON values: \<open>k in x\<close>, \<open>x.get(k, default)\<close>, \<open>x[k]\<close> and
  truthiness.\<close>

fun py_in :: "string \<Rightarrow> json \<Rightarrow> py_error + bool" where
  "py_in k (JObj kvs) = Inr (map_of kvs k \<noteq> None)"
| "py_in k (JArr xs) = Inr (JStr k \<in> set xs)"
| "py_in k (JStr s) = Inr (str_contains k s)"
| "py_in k _ = Inl TypeError"

fun json_get :: "json \<Rightarrow> string \<Rightarrow> json \<Rightarrow> py_error + json" where
  "json_get (JObj kvs) k dflt = Inr (dict_get kvs k dflt)"
| "json_get _ k dflt = Inl AttributeError"

fun item :: "json \<Rightarrow> string \<Rightarrow> py_error + json" where
  "item (JObj kvs) k = (case map_of kvs k of None \<Rightarrow> Inl KeyError | Some v \<Rightarrow> Inr v)"
| "item _ k = Inl TypeError"

fun truthy :: "json \<Rightarrow> bool" where
  "truthy JNull = False"
| "truthy (JBool b) = b"
| "truthy (JInt n) = (n \<noteq> 0)"
| "truthy (JNum x) = (x \<noteq> 0)"
| "truthy (JStr s) = (s \<noteq> [])"
| "truthy (JArr xs) = (xs \<noteq> [])"
| "truthy (JObj kvs) = (kvs \<noteq> [])"

text \<open>
  \<open>create_performance_charts\<close> draws with matplotlib; the model keeps which charts it
  produces, not their pixels.
\<close>

fun test_type_is :: "string \<Rightarrow> json \<Rightarrow> py_error + bool" where
  "test_type_is t (JObj kvs) = Inr (map_of kvs ''test_type'' = Some (JStr t))"
| "test_type_is t _ = Inl AttributeError"

fun select_results :: "string \<Rightarrow> json list \<Rightarrow> py_error + json list" where
  "select_results t [] = Inr []"
| "select_results t (r # rs) =
     bind_result (test_type_is t r) (\<lambda>hit.
     bind_result (select_results t rs) (\<lambda>rest. Inr (if hit then r # rest else rest)))"

definition create_performance_charts :: "json \<Rightarrow> py_error + string list" where
  "create_performance_charts performance_data =
     bind_result (py_in ''performance_results'' performance_data) (\<lambda>present.
       if present
       then bind_result (item performance_data ''performance_results'') (\<lambda>rs.
              case rs of
                JArr results \<Rightarrow>
                  bind_result (select_results ''insert_performance'' results) (\<lambda>insert_data.
                  bind_result (select_results ''query_performance'' results) (\<lambda>query_data.
                    Inr ((if insert_data \<noteq> [] then [''insert_performance''] else [])
                         @ (if query_data \<noteq> [] then [''query_performance''] else []))))
              | JObj kvs \<Rightarrow> if kvs = [] then Inr [] else Inl AttributeError
              | JStr s \<Rightarrow> if s = [] then Inr [] else Inl AttributeError
              | _ \<Rightarrow> Inl TypeError)
       else Inr [])"

text \<open>
  The HTML document, as the sequence of blocks the template emits. The header, the summary
  cards and the static coverage overview are always emitted; each category block stands
  under an \<open>{% if category %}\<close>. A lookup \<open>summary.x\<close> that finds nothing is
  Jinja's undefined value: it prints as nothing and compares unequal to a string, but an
  order comparison with it raises. What Jinja does inside a category block with the data
  of a file that is present is not modelled.
\<close>

datatype html_block =
    Header string
  | SummaryCards string "json option" "json option" "json option" string "json option"
  | CoverageOverview
  | CategoryBlock string json "string list"
  | RecommendationsBlock json

fun attr :: "json \<Rightarrow> string \<Rightarrow> json option" where
  "attr (JObj kvs) k = map_of kvs k"
| "attr _ k = None"

fun greater_than_zero :: "json option \<Rightarrow> py_error + bool" where
  "greater_than_zero (Some (JInt n)) = Inr (n > 0)"
| "greater_than_zero (Some (JNum x)) = Inr (x > 0)"
| "greater_than_zero (Some (JBool b)) = Inr b"
| "greater_than_zero _ = Inl TypeError"

definition summary_cards :: "json \<Rightarrow> py_error + html_block" where
  "summary_cards summary =
     bind_result
       (if truthy summary then greater_than_zero (attr summary ''failed_suites'')
        else Inr False)
       (\<lambda>failed.
          Inr (SummaryCards
            (if attr summary ''overall_status'' = Some (JStr ''PASS'')
             then ''success'' else ''error'')
            (if truthy summary then attr summary ''overall_status'' else Some (JStr ''N/A''))
            (if truthy summary then attr summary ''total_suites'' else Some (JStr ''0''))
            (if truthy summary then attr summary ''passed_suites'' else Some (JStr ''0''))
            (if failed then ''error'' else ''success'')
            (if truthy summary then attr summary ''failed_suites'' else Some (JStr ''0''))))"

text \<open>\<open>{% if x %} block {% endif %}\<close> for a value that is \<open>None\<close> when its file
  was absent.\<close>

definition category_block :: "string \<Rightarrow> json option \<Rightarrow> string list \<Rightarrow> html_block list" where
  "category_block name data charts =
     (case data of
        None \<Rightarrow> []
      | Some j \<Rightarrow> if truthy j then [CategoryBlock name j charts] else [])"

definition render :: "string \<Rightarrow> json \<Rightarrow> json dict \<Rightarrow> string list \<Rightarrow> py_error + html_block list" where
  "render timestamp summary results charts =
     bind_result (summary_cards summary) (\<lambda>cards.
       Inr ([Header timestamp, cards, CoverageOverview]
            @ category_block ''crud'' (map_of results ''crud'') []
            @ category_block ''performance'' (map_of results ''performance'') charts
            @ category_block ''security'' (map_of results ''security'') []
            @ category_block ''validation'' (map_of results ''validation'') []
            @ (case attr summary ''recommendations'' of
                 None \<Rightarrow> []
               | Some r \<Rightarrow> if truthy summary \<and> truthy r then [RecommendationsBlock r] else [])))"

definition html_report_filename :: "datetime \<Rightarrow> string" where
  "html_report_filename t = ''mongodb_test_report_'' @ stamp t @ ''.html''"

text \<open>\<open>generate_html_report\<close> returns the name of the file it wrote and, here, the
  document with it. It reads the clock twice: for the page and for the file name.\<close>

definition generate_html_report ::
  "datetime \<Rightarrow> datetime \<Rightarrow> directory \<Rightarrow> py_error + string \<times> html_block list" where
  "generate_html_report t t' d =
     bind_result (generator_load_latest_results d) (\<lambda>results.
     bind_result
       (if dict_has results ''performance''
        then bind_result
               (case map_of results ''performance'' of
                  None \<Rightarrow> Inl KeyError | Some p \<Rightarrow> Inr p)
               create_performance_charts
        else Inr [])
       (\<lambda>charts.
     bind_result (json_get (dict_get results ''summary'' (JObj [])) ''test_execution_summary''
                    (JObj []))
       (\<lambda>summary.
     bind_result (render (readable t) summary results charts) (\<lambda>html_content.
       Inr (html_report_filename t', html_content)))))"

text \<open>
  The spreadsheet. pandas and openpyxl are libraries outside the repository: a sheet is
  kept as its name and the JSON its frame is built from, and building a frame is taken to
  succeed. One behaviour of the libraries is part of the model: the workbook of
  \<open>pd.ExcelWriter(path, engine="openpyxl")\<close> starts without any sheet, and saving a
  workbook without a sheet, which happens when the \<open>with\<close> block is left, raises
  \<open>IndexError\<close> (``At least one sheet must be visible'').
\<close>

type_synonym sheet = "string \<times> json"

text \<open>\<open>k.replace("_", " ").title()\<close> on ASCII keys.\<close>

definition is_lower :: "char \<Rightarrow> bool" where
  "is_lower c = (CHR ''a'' \<le> c \<and> c \<le> CHR ''z'')"

definition is_upper :: "char \<Rightarrow> bool" where
  "is_upper c = (CHR ''A'' \<le> c \<and> c \<le> CHR ''Z'')"

definition to_upper :: "char \<Rightarrow> char" where
  "to_upper c = (if is_lower c then char_of (of_char c - (32::nat)) else c)"

definition to_lower :: "char \<Rightarrow> char" where
  "to_lower c = (if is_upper c then char_of (of_char c + (32::nat)) else c)"

fun title_from :: "bool \<Rightarrow> string \<Rightarrow> string" where
  "title_from inside [] = []"
| "title_from inside (c # cs) =
     (if is_lower c \<or> is_upper c
      then (if inside then to_lower c else to_upper c) # title_from True cs
      else c # title_from False cs)"

definition metric_name :: "string \<Rightarrow> string" where
  "metric_name k = title_from False (map (\<lambda>c. if c = CHR ''_'' then CHR '' '' else c) k)"

fun items :: "json \<Rightarrow> py_error + (string \<times> json) list" where
  "items (JObj kvs) = Inr kvs"
| "items _ = Inl AttributeError"

definition summary_sheet :: "json \<Rightarrow> py_error + sheet" where
  "summary_sheet summary =
     bind_result (json_get summary ''test_execution_summary'' (JObj [])) (\<lambda>summary_data.
     bind_result (json_get summary ''suite_results'' (JObj [])) (\<lambda>suite_results.
     bind_result (json_get summary_data ''timestamp'' (JStr [])) (\<lambda>ts.
     bind_result (json_get summary_data ''total_suites'' (JInt 0)) (\<lambda>total.
     bind_result (json_get summary_data ''passed_suites'' (JInt 0)) (\<lambda>passed.
     bind_result (json_get summary_data ''failed_suites'' (JInt 0)) (\<lambda>failed.
     bind_result (json_get summary_data ''overall_status'' (JStr [])) (\<lambda>overall.
     bind_result (items suite_results) (\<lambda>kvs.
       Inr (''Summary'',
            JArr ([JArr [JStr ''Test Execution Summary'', JStr []],
                   JArr [JStr ''Timestamp'', ts],
                   JArr [JStr ''Total Suites'', total],
                   JArr [JStr ''Passed Suites'', passed],
                   JArr [JStr ''Failed Suites'', failed],
                   JArr [JStr ''Overall Status'', overall],
                   JArr [JStr [], JStr []],
                   JArr [JStr ''Suite Results'', JStr []]]
                  @ map (\<lambda>(k, v). JArr [JStr (metric_name k), v]) kvs))))))))))"

text \<open>\<open>if "summary" in results: ... to_excel(writer, sheet_name="Summary")\<close>\<close>

definition write_summary_sheet :: "json dict \<Rightarrow> sheet list \<Rightarrow> py_error + sheet list" where
  "write_summary_sheet results sheets =
     (case map_of results ''summary'' of
        None \<Rightarrow> Inr sheets
      | Some summary \<Rightarrow> bind_result (summary_sheet summary) (\<lambda>sh. Inr (sheets @ [sh])))"

text \<open>\<open>if key in results and field in results[key]:
  pd.DataFrame(results[key][field]).to_excel(writer, sheet_name=name)\<close>\<close>

definition write_result_sheet ::
  "string \<Rightarrow> string \<Rightarrow> string \<Rightarrow> json dict \<Rightarrow> sheet list \<Rightarrow> py_error + sheet list" where
  "write_result_sheet key field name results sheets =
     (case map_of results key of
        None \<Rightarrow> Inr sheets
      | Some data \<Rightarrow>
          bind_result (py_in field data) (\<lambda>present.
            if present
            then bind_result (item data field) (\<lambda>rows. Inr (sheets @ [(name, rows)]))
            else Inr sheets))"

definition excel_steps :: "json dict \<Rightarrow> (sheet list \<Rightarrow> py_error + sheet list) list" where
  "excel_steps results =
     [write_summary_sheet results,
      write_result_sheet ''crud'' ''test_results'' ''CRUD Tests'' results,
      write_result_sheet ''performance'' ''performance_results'' ''Performance Tests'' results,
      write_result_sheet ''security'' ''security_results'' ''Security Tests'' results,
      write_result_sheet ''validation'' ''validation_results'' ''Data Validation'' results,
      write_result_sheet ''validation'' ''data_quality_results'' ''Data Quality'' results]"

text \<open>Leaving the \<open>with\<close> block saves the workbook, also when the block raised; an
  exception of the save replaces the one of the block.\<close>

definition close_writer :: "sheet list \<Rightarrow> py_error + unit" where
  "close_writer sheets = (if sheets = [] then Inl IndexError else Inr ())"

definition excel_report_filename :: "datetime \<Rightarrow> string" where
  "excel_report_filename t = ''mongodb_test_report_'' @ stamp t @ ''.xlsx''"

definition generate_excel_report ::
  "datetime \<Rightarrow> directory \<Rightarrow> py_error + string \<times> sheet list" where
  "generate_excel_report t d =
     bind_result (generator_load_latest_results d) (\<lambda>results.
       case run_steps (excel_steps results) [] of
         (sheets, raised) \<Rightarrow>
           bind_result (close_writer sheets) (\<lambda>_.
             case raised of
               Some err \<Rightarrow> Inl err
             | None \<Rightarrow> Inr (excel_report_filename t, sheets)))"

section \<open>The dashboard (dashboard.py)\<close>

text \<open>
  The dashboard does not create the reports directory: it may be missing, and then
  \<open>os.listdir\<close> raises. \<open>load_latest_results\<close> runs its four loads inside one
  \<open>try\<close> block whose handler prints the exception; the function then returns the
  dictionary as the loads left it.
\<close>

definition dashboard_load ::
  "directory option \<Rightarrow> string \<Rightarrow> string \<Rightarrow> json dict \<Rightarrow> py_error + json dict" where
  "dashboard_load fs pre key results =
     (case fs of
        None \<Rightarrow> Inl FileNotFoundError
      | Some d \<Rightarrow> load_latest d pre key results)"

definition dashboard_load_latest_results :: "directory option \<Rightarrow> json dict" where
  "dashboard_load_latest_results fs =
     fst (run_steps
            [dashboard_load fs ''test_summary_'' ''summary'',
             dashboard_load fs ''performance_report_'' ''performance'',
             dashboard_load fs ''security_report_'' ''security'',
             dashboard_load fs ''validation_report_'' ''validation'']
            [])"

text \<open>The route \<open>/api/data\<close>: \<open>jsonify(self.load_latest_results())\<close>.\<close>

definition get_data :: "directory option \<Rightarrow> py_error + json" where
  "get_data fs = Inr (JObj (dashboard_load_latest_results fs))"

text \<open>
  The vocabulary of the claims about result files: the most recent file of a category
  is the greatest name with the category's prefix; a category's load is broken when that
  file is not valid JSON.
\<close>

definition latest_file :: "directory \<Rightarrow> string \<Rightarrow> string option" where
  "latest_file d pre =
     (let files = filter (\<lambda>f. startswith f pre) (listdir d)
      in if files = [] then None else Some (Max (set files)))"

definition file_content :: "directory \<Rightarrow> string \<Rightarrow> json option" where
  "file_content d f = (case map_of d f of Some (Some j) \<Rightarrow> Some j | _ \<Rightarrow> None)"

definition dashboard_categories :: "(string \<times> string) list" where
  "dashboard_categories =
     [(''test_summary_'', ''summary''),
      (''performance_report_'', ''performance''),
      (''security_report_'', ''security''),
      (''validation_report_'', ''validation'')]"

fun loaded_before_error :: "directory \<Rightarrow> (string \<times> string) list \<Rightarrow> json dict" where
  "loaded_before_error d [] = []"
| "loaded_before_error d ((pre, key) # cs) =
     (case latest_file d pre of
        None \<Rightarrow> loaded_before_error d cs
      | Some f \<Rightarrow>
          (case file_content d f of
             None \<Rightarrow> []
           | Some j \<Rightarrow> (key, j) # loaded_before_error d cs))"

text \<open>Three concrete directories: one holding a single timestamped performance report,
  one holding two summaries and a broken performance report, and one with fixed-name
  result files.\<close>

definition only_timestamped :: directory where
  "only_timestamped =
     [(''performance_report_20240101_100000.json'',
       Some (JObj [(''results'', JArr [])]))]"

definition broken_performance :: directory where
  "broken_performance =
     [(''test_summary_20240101_100000.json'', Some (JObj [(''run'', JInt 1)])),
      (''validation_report_20240101_100500.json'', Some (JObj [(''run'', JInt 3)])),
      (''test_summary_20240102_090000.json'', Some (JObj [(''run'', JInt 2)])),
      (''performance_report_20240102_090100.json'', None)]"

definition fixed_names :: directory where
  "fixed_names =
     [(''test_summary_20240101_100000.json'', Some (JObj [(''run'', JInt 1)])),
      (''security_test_results.json'', Some (JObj [(''security_results'', JArr [])])),
      (''test_summary_20240102_090000.json'', Some (JObj [(''run'', JInt 2)]))]"

section \<open>The suite executors\<close>

text \<open>
  An executor object holds the list its checks append to (\<open>self.results\<close> in the
  performance suite, \<open>self.test_results\<close> in the security and validation suites);
  the files it writes go to the \<open>reports\<close> directory, which may or may not exist.
  What a check meets in the database is a parameter of the model: the measured times, or
  the test cases found together with the clock reading taken when the check builds its
  result; and, where the source does not catch it, the exception of the database call.
\<close>

record executor =
  accumulator :: "json list"
  reports_exists :: bool
  report_files :: "(string \<times> json) list"

definition record_result :: "json \<Rightarrow> executor \<Rightarrow> executor" where
  "record_result result ex = ex\<lparr>accumulator := accumulator ex @ [result]\<rparr>"

text \<open>\<open>os.makedirs("reports", exist_ok=True)\<close>\<close>

definition make_reports_dir :: "executor \<Rightarrow> executor" where
  "make_reports_dir ex = ex\<lparr>reports_exists := True\<rparr>"

text \<open>\<open>with open(report_filename, "w") as f: json.dump(report, f, ...)\<close>: opening a
  file in a directory that does not exist raises.\<close>

definition write_report :: "string \<Rightarrow> json \<Rightarrow> executor \<Rightarrow> py_error + executor" where
  "write_report report_filename report ex =
     (if reports_exists ex
      then Inr (ex\<lparr>report_files := report_files ex @ [(report_filename, report)]\<rparr>)
      else Inl FileNotFoundError)"

subsection \<open>Performance (mongodb\_performance\_tests.py)\<close>

record perf_probe =
  cleanup_outcome :: "py_error + unit"
  insert_times :: "py_error + real \<times> real"
  query_clocks :: "py_error + (string \<times> real \<times> real) list"
  concurrent_time :: "py_error + real"
  aggregation_runs :: "py_error + (real \<times> int) list"
  report_time :: datetime
  file_time :: datetime

definition test_insert_performance ::
  "perf_probe \<Rightarrow> int \<Rightarrow> executor \<Rightarrow> py_error + json \<times> executor" where
  "test_insert_performance p document_count ex =
     bind_result (insert_times p) (\<lambda>(single_insert_time, bulk_insert_time).
     bind_result (insert_performance_result document_count single_insert_time bulk_insert_time)
       (\<lambda>result. Inr (result, record_result result ex)))"

fun query_times :: "(string \<times> real \<times> real) list \<Rightarrow> int \<Rightarrow> py_error + json list" where
  "query_times [] iterations = Inr []"
| "query_times ((query, start_time, end_time) # qs) iterations =
     bind_result (query_time_entry query start_time end_time iterations) (\<lambda>entry.
     bind_result (query_times qs iterations) (\<lambda>rest. Inr (entry # rest)))"

definition test_query_performance ::
  "perf_probe \<Rightarrow> int \<Rightarrow> executor \<Rightarrow> py_error + json \<times> executor" where
  "test_query_performance p iterations ex =
     bind_result (query_clocks p) (\<lambda>clocks.
     bind_result (query_times clocks iterations) (\<lambda>entries.
       let result = JObj [(''test_type'', JStr ''query_performance''),
                          (''query_results'', JArr entries),
                          (''total_iterations'', JInt iterations)]
       in Inr (result, record_result result ex)))"

definition test_concurrent_operations ::
  "perf_probe \<Rightarrow> int \<Rightarrow> int \<Rightarrow> executor \<Rightarrow> py_error + json \<times> executor" where
  "test_concurrent_operations p num_threads operations_per_thread ex =
     bind_result (concurrent_time p) (\<lambda>total_time.
     bind_result (concurrent_operations_result num_threads operations_per_thread total_time)
       (\<lambda>result. Inr (result, record_result result ex)))"

text \<open>One entry per aggregation pipeline run, numbered from 1; the suite has two
  pipelines.\<close>

fun aggregation_entries :: "int \<Rightarrow> (real \<times> int) list \<Rightarrow> json list" where
  "aggregation_entries i [] = []"
| "aggregation_entries i ((execution_time, result_count) # runs) =
     JObj [(''pipeline_id'', JInt (i + 1)),
           (''execution_time'', JNum execution_time),
           (''result_count'', JInt result_count)]
     # aggregation_entries (i + 1) runs"

definition test_aggregation_performance ::
  "perf_probe \<Rightarrow> executor \<Rightarrow> py_error + json \<times> executor" where
  "test_aggregation_performance p ex =
     bind_result (aggregation_runs p) (\<lambda>runs.
       let result = JObj [(''test_type'', JStr ''aggregation_performance''),
                          (''pipelines_tested'', JInt 2),
                          (''results'', JArr (aggregation_entries 0 runs))]
       in Inr (result, record_result result ex))"

definition performance_database :: string where
  "performance_database = ''performance_test_db''"

text \<open>\<open>generate_performance_report\<close> opens its file without creating the
  directory.\<close>

definition generate_performance_report ::
  "perf_probe \<Rightarrow> executor \<Rightarrow> py_error + json \<times> executor" where
  "generate_performance_report p ex =
     (let report =
            JObj [(''test_summary'',
                     JObj [(''total_tests'', JInt (int (length (accumulator ex)))),
                           (''test_timestamp'', JStr (isoformat (report_time p))),
                           (''database'', JStr performance_database)]),
                  (''results'', JArr (accumulator ex))]
      in bind_result
           (write_report (''reports/performance_report_'' @ stamp (file_time p) @ ''.json'')
              report ex)
           (\<lambda>ex. Inr (report, ex)))"

definition run_full_performance_suite ::
  "perf_probe \<Rightarrow> executor \<Rightarrow> py_error + json \<times> executor" where
  "run_full_performance_suite p ex =
     bind_result (cleanup_outcome p) (\<lambda>_.
     bind_result (test_insert_performance p 1000 ex) (\<lambda>(_, ex).
     bind_result (test_query_performance p 50 ex) (\<lambda>(_, ex).
     bind_result (test_concurrent_operations p 5 50 ex) (\<lambda>(_, ex).
     bind_result (test_aggregation_performance p ex) (\<lambda>(_, ex).
       generate_performance_report p ex)))))"

subsection \<open>Security (mongodb\_security\_tests.py) and data validation
  (mongodb\_data\_validation.py)\<close>

text \<open>Every check of these two suites catches the exceptions of its database calls and
  turns them into test cases, so a check always appends one result. Both report
  generators create the \<open>reports\<close> directory before they open their file.\<close>

type_synonym finding = "json list \<times> datetime"

definition category_result :: "string \<Rightarrow> finding \<Rightarrow> json" where
  "category_result name fd =
     JObj [(''test_category'', JStr name),
           (''timestamp'', JStr (isoformat (snd fd))),
           (''test_cases'', JArr (fst fd))]"

definition run_check :: "string \<Rightarrow> finding \<Rightarrow> executor \<Rightarrow> json \<times> executor" where
  "run_check name fd ex =
     (let result = category_result name fd in (result, record_result result ex))"

record security_probe =
  authentication_finding :: finding
  ssl_finding :: finding
  encryption_finding :: finding
  injection_finding :: finding
  permissions_finding :: finding
  security_report_time :: datetime
  security_file_time :: datetime

definition test_authentication :: "security_probe \<Rightarrow> executor \<Rightarrow> json \<times> executor" where
  "test_authentication p = run_check ''Authentication Testing'' (authentication_finding p)"

definition test_ssl_connection :: "security_probe \<Rightarrow> executor \<Rightarrow> json \<times> executor" where
  "test_ssl_connection p = run_check ''SSL/TLS Testing'' (ssl_finding p)"

definition test_data_encryption :: "security_probe \<Rightarrow> executor \<Rightarrow> json \<times> executor" where
  "test_data_encryption p = run_check ''Data Encryption Testing'' (encryption_finding p)"

definition test_injection_attacks :: "security_probe \<Rightarrow> executor \<Rightarrow> json \<times> executor" where
  "test_injection_attacks p = run_check ''NoSQL Injection Testing'' (injection_finding p)"

definition test_database_permissions :: "security_probe \<Rightarrow> executor \<Rightarrow> json \<times> executor" where
  "test_database_permissions p =
     run_check ''Database Permissions Testing'' (permissions_finding p)"

definition security_recommendations :: "json list" where
  "security_recommendations =
     [JStr ''Enable authentication in production environments'',
      JStr ''Configure SSL/TLS for encrypted connections'',
      JStr ''Implement proper input validation and sanitization'',
      JStr ''Use application-level encryption for sensitive data'',
      JStr ''Regularly update MongoDB to latest security patches'',
      JStr ''Monitor database access logs'',
      JStr ''Implement role-based access control (RBAC)'',
      JStr ''Use connection string encryption in configuration files'']"

definition generate_security_report ::
  "security_probe \<Rightarrow> executor \<Rightarrow> py_error + json \<times> executor" where
  "generate_security_report p ex =
     (let report =
            JObj [(''security_test_summary'',
                     JObj [(''total_categories'', JInt (int (length (accumulator ex)))),
                           (''test_timestamp'', JStr (isoformat (security_report_time p))),
                           (''tester'', JStr ''MongoDB QA Security Suite'')]),
                  (''test_results'', JArr (accumulator ex)),
                  (''recommendations'', JArr security_recommendations)];
          report_filename =
            ''reports/security_report_'' @ stamp (security_file_time p) @ ''.json''
      in bind_result (write_report report_filename report (make_reports_dir ex))
           (\<lambda>ex. Inr (report, ex)))"

definition run_full_security_suite ::
  "security_probe \<Rightarrow> executor \<Rightarrow> py_error + json \<times> executor" where
  "run_full_security_suite p ex =
     (let (_, ex) = test_authentication p ex;
          (_, ex) = test_ssl_connection p ex;
          (_, ex) = test_data_encryption p ex;
          (_, ex) = test_injection_attacks p ex;
          (_, ex) = test_database_permissions p ex
      in generate_security_report p ex)"

record validation_probe =
  validation_cleanup :: "py_error + unit"
  schema_finding :: finding
  integrity_finding :: finding
  transaction_finding :: finding
  generated_count :: "py_error + int"
  quality_outcome :: "py_error + json"
  validation_report_time :: datetime
  validation_file_time :: datetime

definition test_schema_validation :: "validation_probe \<Rightarrow> executor \<Rightarrow> json \<times> executor" where
  "test_schema_validation p = run_check ''Schema Validation Testing'' (schema_finding p)"

definition test_data_integrity :: "validation_probe \<Rightarrow> executor \<Rightarrow> json \<times> executor" where
  "test_data_integrity p = run_check ''Data Integrity Testing'' (integrity_finding p)"

definition test_transaction_handling :: "validation_probe \<Rightarrow> executor \<Rightarrow> json \<times> executor" where
  "test_transaction_handling p =
     run_check ''Transaction Handling Testing'' (transaction_finding p)"

definition validation_database :: string where
  "validation_database = ''validation_test_db''"

definition validation_recommendations :: "json list" where
  "validation_recommendations =
     [JStr ''Implement comprehensive schema validation for all collections'',
      JStr ''Use unique indexes to prevent duplicate data'',
      JStr ''Implement data quality checks in application layer'',
      JStr ''Regular data integrity audits'',
      JStr ''Use transactions for multi-document operations when using replica sets'',
      JStr ''Implement proper error handling and rollback mechanisms'',
      JStr ''Use data validation libraries in application code'',
      JStr ''Monitor data quality metrics continuously'']"

definition generate_validation_report ::
  "validation_probe \<Rightarrow> executor \<Rightarrow> py_error + json \<times> executor" where
  "generate_validation_report p ex =
     (let report =
            JObj [(''validation_test_summary'',
                     JObj [(''total_categories'', JInt (int (length (accumulator ex)))),
                           (''test_timestamp'', JStr (isoformat (validation_report_time p))),
                           (''database'', JStr validation_database)]),
                  (''test_results'', JArr (accumulator ex)),
                  (''recommendations'', JArr validation_recommendations)];
          report_filename =
            ''reports/validation_report_'' @ stamp (validation_file_time p) @ ''.json''
      in bind_result (write_report report_filename report (make_reports_dir ex))
           (\<lambda>ex. Inr (report, ex)))"

text \<open>\<open>run_full_validation_suite\<close> returns the report and the quality results; the
  quality results are not appended to the accumulator.\<close>

definition run_full_validation_suite ::
  "validation_probe \<Rightarrow> executor \<Rightarrow> py_error + (json \<times> json) \<times> executor" where
  "run_full_validation_suite p ex =
     bind_result (validation_cleanup p) (\<lambda>_.
       let (_, ex) = test_schema_validation p ex;
           (_, ex) = test_data_integrity p ex;
           (_, ex) = test_transaction_handling p ex
       in bind_result (generated_count p) (\<lambda>_.
          bind_result (quality_outcome p) (\<lambda>quality_results.
          bind_result (generate_validation_report p ex) (\<lambda>(report, ex).
            Inr ((report, quality_results), ex)))))"

subsection \<open>Functional (mongodb\_crud\_tests.py)\<close>

text \<open>
  The functional suite is a pytest module: three test classes whose methods assert on
  the database, with \<open>setup_method\<close> and \<open>teardown_method\<close> around each. It defines
  no executor object, no accumulator and no report. Whether a test passes depends on
  the database and is a parameter. Run as a script the module calls
  \<open>pytest.main([__file__, "-v", "--tb=short"])\<close>, whose value is 0 when every
  collected test passed and 1 when one failed, and drops that value, so the process ends
  with status 0; nothing is written to the \<open>reports\<close> directory.
\<close>

definition crud_tests :: "string list" where
  "crud_tests =
     [''TestMongoDBConnection::test_connection_success'',
      ''TestMongoDBConnection::test_connection_invalid_host'',
      ''TestMongoDBConnection::test_database_selection'',
      ''TestMongoDBCRUDOperations::test_create_single_document'',
      ''TestMongoDBCRUDOperations::test_create_multiple_documents'',
      ''TestMongoDBCRUDOperations::test_read_documents'',
      ''TestMongoDBCRUDOperations::test_update_documents'',
      ''TestMongoDBCRUDOperations::test_delete_documents'',
      ''TestMongoDBIndexes::test_create_single_field_index'',
      ''TestMongoDBIndexes::test_create_compound_index'',
      ''TestMongoDBIndexes::test_query_performance_with_index'']"

definition pytest_main :: "(string \<Rightarrow> bool) \<Rightarrow> int" where
  "pytest_main passes = (if list_all passes crud_tests then 0 else 1)"

definition crud_module_main ::
  "(string \<Rightarrow> bool) \<Rightarrow> (string \<times> json) list \<Rightarrow> int \<times> (string \<times> json) list" where
  "crud_module_main passes reports = (let status = pytest_main passes in (0, reports))"

text \<open>Concrete probes: a performance run, a security run and a validation run in which
  every database call answers.\<close>

definition noon :: datetime where
  "noon = \<lparr>isoformat = ''2024-01-01T12:00:00'', stamp = ''20240101_120000'',
           readable = ''2024-01-01 12:00:00''\<rparr>"

definition quick_performance :: perf_probe where
  "quick_performance =
     \<lparr>cleanup_outcome = Inr (),
      insert_times = Inr (2, 1),
      query_clocks = Inr [(''q'', 0, 5)],
      concurrent_time = Inr 10,
      aggregation_runs = Inr [(1, 5), (2, 12)],
      report_time = noon,
      file_time = noon\<rparr>"

definition plain_security :: security_probe where
  "plain_security =
     \<lparr>authentication_finding = ([], noon),
      ssl_finding = ([], noon),
      encryption_finding = ([], noon),
      injection_finding = ([input_validation_case], noon),
      permissions_finding = ([], noon),
      security_report_time = noon,
      security_file_time = noon\<rparr>"

definition plain_validation :: validation_probe where
  "plain_validation =
     \<lparr>validation_cleanup = Inr (),
      schema_finding = ([], noon),
      integrity_finding = ([], noon),
      transaction_finding = ([], noon),
      generated_count = Inr 1000,
      quality_outcome = Inr (JObj []),
      validation_report_time = noon,
      validation_file_time = noon\<rparr>"

text \<open>A new executor object, without and with a \<open>reports\<close> directory.\<close>

definition fresh_executor :: executor where
  "fresh_executor = \<lparr>accumulator = [], reports_exists = False, report_files = []\<rparr>"

definition executor_with_reports :: executor where
  "executor_with_reports = \<lparr>accumulator = [], reports_exists = True, report_files = []\<rparr>"

section \<open>Verification: the test runner\<close>

lemma run_command_result:
  "run_command e c w =
     (\<lparr>success = (exit_status e c = Some 0),
       stdout = (case shell e c of Completed rc out err \<Rightarrow> out | Raised msg \<Rightarrow> []),
       stderr = (case shell e c of Completed rc out err \<Rightarrow> err | Raised msg \<Rightarrow> msg),
       return_code = (case shell e c of Completed rc out err \<Rightarrow> rc | Raised msg \<Rightarrow> - 1)\<rparr>,
      w\<lparr>history := history w @ [Launched c],
        reports_dir := reports_dir w \<or> leaves_reports e c\<rparr>)"
  by (simp add: run_command_def exit_status_def leaves_reports_def split: proc_outcome.split)

lemma run_suite_results:
  "run_functional_tests e w =
     (exit_status e crud_command = Some 0,
      w\<lparr>history := history w @ [Launched crud_command],
        reports_dir := reports_dir w \<or> leaves_reports e crud_command\<rparr>)"
  "run_performance_tests e w =
     (exit_status e performance_command = Some 0,
      w\<lparr>history := history w @ [Launched performance_command],
        reports_dir := reports_dir w \<or> leaves_reports e performance_command\<rparr>)"
  "run_security_tests e w =
     (exit_status e security_command = Some 0,
      w\<lparr>history := history w @ [Launched security_command],
        reports_dir := reports_dir w \<or> leaves_reports e security_command\<rparr>)"
  "run_data_validation_tests e w =
     (exit_status e validation_command = Some 0,
      w\<lparr>history := history w @ [Launched validation_command],
        reports_dir := reports_dir w \<or> leaves_reports e validation_command\<rparr>)"
  by (simp_all add: run_functional_tests_def run_performance_tests_def
      run_security_tests_def run_data_validation_tests_def run_command_result)

lemma setup_environment_result:
  "setup_environment e w =
     (exit_status e mongo_ping_command = Some 0,
      w\<lparr>history := history w @ [Launched mongo_ping_command], reports_dir := True\<rparr>)"
  by (simp add: setup_environment_def run_command_result Let_def)

text \<open>The selected suites run one after the other whatever the earlier ones returned.\<close>

lemma run_selected_result:
  "run_selected a e w =
     (map (\<lambda>s. (suite_name s, exit_status e (suite_command s) = Some 0))
        (selected (suite a)),
      w\<lparr>history := history w @ map (\<lambda>s. Launched (suite_command s)) (selected (suite a)),
        reports_dir := reports_dir w
          \<or> (\<exists>s \<in> set (selected (suite a)). leaves_reports e (suite_command s))\<rparr>)"
  by (cases "suite a") (simp_all add: run_selected_def run_suite_results)

lemma summary_overall_status:
  "Option.bind (subscript (summary_report t results) ''test_execution_summary'')
     (\<lambda>s. subscript s ''overall_status'') = Some (JStr ''PASS'')
   \<longleftrightarrow> (\<forall>r \<in> set (dict_values results). r)"
  by (simp add: summary_report_def status_of_def list_all_iff)

text \<open>What a whole run of \<open>main\<close> comes to: stopped by the environment check; or all
  selected suites run and then the summary written and the exit code decided; or all
  selected suites run and then the write of the summary raising.\<close>

lemma main_result:
  "main a e =
     (if \<not> passes_setup a e
      then (1, \<lparr>history = [Launched mongo_ping_command], reports_dir = True\<rparr>)
      else if summary_writable a e
      then (if (\<forall>s \<in> set (selected (suite a)). exit_status e (suite_command s) = Some 0)
            then 0 else 1,
            \<lparr>history = suite_events a
                 @ [Wrote (summary_filename (now e))
                      (summary_report (now e) (suite_outcomes a e))],
             reports_dir = True\<rparr>)
      else (1, \<lparr>history = suite_events a, reports_dir = False\<rparr>))"
  by (auto simp add: main_def passes_setup_def summary_writable_def suite_events_def
      suite_outcomes_def setup_environment_result run_selected_result
      generate_summary_report_def summary_overall_status dict_values_def Let_def)

lemma ping_is_no_suite: "mongo_ping_command \<noteq> suite_command s"
  by (cases s) (simp_all add: mongo_ping_command_def crud_command_def
      performance_command_def security_command_def validation_command_def)

lemma selected_nonempty: "selected c \<noteq> []"
  by (cases c) simp_all

lemma launches_append: "launches (xs @ ys) = launches xs @ launches ys"
  by (induction xs rule: launches.induct) simp_all

lemma writes_append: "writes (xs @ ys) = writes xs @ writes ys"
  by (induction xs rule: writes.induct) simp_all

lemma launches_suites: "launches (map (\<lambda>s. Launched (f s)) xs) = map f xs"
  by (induction xs) simp_all

lemma writes_suites: "writes (map (\<lambda>s. Launched (f s)) xs) = []"
  by (induction xs) simp_all

lemma launched_main:
  "launched (snd (main a e)) =
     (if passes_setup a e
      then (if skip_setup a then [] else [mongo_ping_command])
           @ map suite_command (selected (suite a))
      else [mongo_ping_command])"
  by (simp add: main_result launched_def suite_events_def launches_append launches_suites)

lemma written_main:
  "written (snd (main a e)) =
     (if passes_setup a e \<and> summary_writable a e
      then [(summary_filename (now e), summary_report (now e) (suite_outcomes a e))]
      else [])"
  by (simp add: main_result written_def suite_events_def writes_append writes_suites)

text \<open>The suites are launched exactly when the run gets past the environment check.\<close>

lemma launched_suites:
  "(\<forall>s \<in> set (selected (suite a)). suite_command s \<in> set (launched (snd (main a e))))
     \<longleftrightarrow> passes_setup a e"
proof (cases "passes_setup a e")
  case True
  then show ?thesis by (simp add: launched_main)
next
  case False
  obtain s where "s \<in> set (selected (suite a))"
    using selected_nonempty [of "suite a"] by (cases "selected (suite a)") auto
  with False show ?thesis
    using ping_is_no_suite [of s] by (auto simp add: launched_main dest: sym)
qed

text \<open>Whenever the \<open>reports\<close> directory is there for the summary, the exit code is 0
  exactly when every selected suite was launched and returned 0.\<close>

lemma exit_code_when_summary_writable:
  assumes "summary_writable a e"
  shows "fst (main a e) = 0 \<longleftrightarrow>
      (\<forall>s \<in> set (selected (suite a)).
          suite_command s \<in> set (launched (snd (main a e)))
          \<and> exit_status e (suite_command s) = Some 0)"
proof -
  have "(\<forall>s \<in> set (selected (suite a)).
          suite_command s \<in> set (launched (snd (main a e)))
          \<and> exit_status e (suite_command s) = Some 0)
        \<longleftrightarrow> passes_setup a e
            \<and> (\<forall>s \<in> set (selected (suite a)). exit_status e (suite_command s) = Some 0)"
    using launched_suites [of a e] by blast
  then show ?thesis
    using assms by (simp add: main_result)
qed

text \<open>
  Claim C1. For every suite selection the runner exits with code 0 if and only if every
  selected suite's subprocess returned exit code 0. With \<open>--suite functional
  --skip-setup\<close> and no \<open>reports\<close> directory the functional suite is launched and
  returns 0, nothing creates the directory, the write of the summary raises and the
  runner exits with code 1.
\<close>

theorem runner_exits_1_though_suite_passed:
  "selected Functional = [Functional]
   \<and> exit_status fresh_checkout (suite_command Functional) = Some 0
   \<and> main \<lparr>suite = Functional, skip_setup = True, load_data = False\<rparr> fresh_checkout
       = (1, \<lparr>history = [Launched crud_command], reports_dir = False\<rparr>)"
  by (simp add: main_def run_selected_def run_functional_tests_def run_command_def
      generate_summary_report_def exit_status_def fresh_checkout_def crud_command_def
      security_command_def validation_command_def)

text \<open>All four suites run, in the fixed order, whatever any of them returns.\<close>

lemma all_suites_run_in_order:
  assumes "passes_setup a e" and "suite a = All"
  shows "launched (snd (main a e)) =
       (if skip_setup a then [] else [mongo_ping_command])
       @ [crud_command, performance_command, security_command, validation_command]"
  using assms by (simp add: launched_main)

text \<open>When the \<open>reports\<close> directory is there for it, the summary is written, and it is
  the last event of the run.\<close>

lemma summary_written_last:
  assumes "passes_setup a e" and "summary_writable a e"
  shows "history (snd (main a e)) =
           suite_events a
           @ [Wrote (summary_filename (now e)) (summary_report (now e) (suite_outcomes a e))]"
  using assms by (simp add: main_result)

text \<open>
  Claim C8. When all suites are requested, every suite is run whatever the earlier ones
  returned, in the order functional, performance, security, validation, and a summary
  report is generated afterwards in every case. With \<open>--suite all --skip-setup\<close>, no
  \<open>reports\<close> directory and four suites that fail before they create it, the four
  suites are launched in order, then the write of the summary raises: no summary is
  generated and the runner exits with code 1.
\<close>

theorem no_summary_when_reports_missing:
  "main \<lparr>suite = All, skip_setup = True, load_data = False\<rparr> no_python
     = (1, \<lparr>history = [Launched crud_command, Launched performance_command,
                       Launched security_command, Launched validation_command],
            reports_dir = False\<rparr>)"
  by (simp add: main_def run_selected_def run_functional_tests_def run_performance_tests_def
      run_security_tests_def run_data_validation_tests_def run_command_def
      generate_summary_report_def no_python_def)

lemma run_selected_outcomes: "fst (run_selected a e w) = suite_outcomes a e"
  by (simp add: run_selected_result suite_outcomes_def)

text \<open>
  Claim C9. The summary's per-suite map always has the four entries functional,
  performance, security and validation; a suite that was not selected is recorded as
  FAIL, while \<open>total_suites\<close> counts only the suites that were run. This is the report
  that \<open>generate_summary_report\<close> builds from the results of the selected suites, and
  the one that \<open>main\<close> writes whenever it writes one.
\<close>

theorem summary_lists_all_four_suites:
  "(case subscript (summary_report t results) ''suite_results'' of
      Some (JObj kvs) \<Rightarrow>
        map fst kvs = [''functional_tests'', ''performance_tests'', ''security_tests'',
                       ''data_validation_tests'']
    | _ \<Rightarrow> False)
   \<and> fst (run_selected a e w) = suite_outcomes a e
   \<and> subscript (summary_report t (suite_outcomes a e)) ''suite_results'' =
       Some (JObj (map (\<lambda>s. (result_key s,
                             status_of (s \<in> set (selected (suite a))
                                        \<and> exit_status e (suite_command s) = Some 0)))
                     [Functional, Performance, Security, Validation]))
   \<and> Option.bind (subscript (summary_report t (suite_outcomes a e)) ''test_execution_summary'')
        (\<lambda>s. subscript s ''total_suites'')
       = Some (JInt (int (length (selected (suite a)))))
   \<and> (\<forall>r w'. generate_summary_report e results w = Inr (r, w') \<longrightarrow>
         r = summary_report (now e) results)
   \<and> (\<forall>f r. Wrote f r \<in> set (history (snd (main a e))) \<longrightarrow>
         r = summary_report (now e) (suite_outcomes a e))"
proof -
  have built: "\<forall>r w'. generate_summary_report e results w = Inr (r, w') \<longrightarrow>
         r = summary_report (now e) results"
    by (auto simp add: generate_summary_report_def Let_def split: if_splits)
  have keys: "(case subscript (summary_report t results) ''suite_results'' of
      Some (JObj kvs) \<Rightarrow>
        map fst kvs = [''functional_tests'', ''performance_tests'', ''security_tests'',
                       ''data_validation_tests'']
    | _ \<Rightarrow> False)"
    by (simp add: summary_report_def)
  have entries: "subscript (summary_report t (suite_outcomes a e)) ''suite_results'' =
       Some (JObj (map (\<lambda>s. (result_key s,
                             status_of (s \<in> set (selected (suite a))
                                        \<and> exit_status e (suite_command s) = Some 0)))
                     [Functional, Performance, Security, Validation]))"
    by (cases "suite a") (simp_all add: summary_report_def suite_outcomes_def dict_get_def)
  have count: "Option.bind
        (subscript (summary_report t (suite_outcomes a e)) ''test_execution_summary'')
        (\<lambda>s. subscript s ''total_suites'')
       = Some (JInt (int (length (selected (suite a)))))"
    by (simp add: summary_report_def suite_outcomes_def)
  have wrote: "\<forall>f r. Wrote f r \<in> set (history (snd (main a e))) \<longrightarrow>
         r = summary_report (now e) (suite_outcomes a e)"
    by (auto simp add: main_result suite_events_def split: if_splits)
  show ?thesis
    by (intro conjI keys entries count built wrote run_selected_outcomes)
qed

theorem summary_lists_all_four_suites_witness:
  "\<exists>r. Wrote ''reports/test_summary_20240101_100000.json'' r
          \<in> set (history (snd (main \<lparr>suite = Security, skip_setup = True, load_data = False\<rparr>
                                  all_green)))
       \<and> subscript r ''suite_results'' =
           Some (JObj [(''functional_tests'', JStr ''FAIL''),
                       (''performance_tests'', JStr ''FAIL''),
                       (''security_tests'', JStr ''PASS''),
                       (''data_validation_tests'', JStr ''FAIL'')])
       \<and> Option.bind (subscript r ''test_execution_summary'')
            (\<lambda>s. subscript s ''total_suites'') = Some (JInt 1)"
proof -
  let ?a = "\<lparr>suite = Security, skip_setup = True, load_data = False\<rparr>"
  let ?f = "''reports/test_summary_20240101_100000.json''"
  have ok: "passes_setup ?a all_green" "summary_writable ?a all_green"
    by (simp_all add: passes_setup_def summary_writable_def all_green_def)
  have "Wrote ?f (summary_report (now all_green) (suite_outcomes ?a all_green))
          \<in> set (history (snd (main ?a all_green)))"
    using ok by (simp add: main_result summary_filename_def all_green_def ten_o_clock_def)
  then obtain r where mem: "Wrote ?f r \<in> set (history (snd (main ?a all_green)))"
    by blast
  note inst = summary_lists_all_four_suites [of "now all_green" "[]" ?a all_green]
  from inst mem have r: "r = summary_report (now all_green) (suite_outcomes ?a all_green)"
    by blast
  from inst have
    "subscript (summary_report (now all_green) (suite_outcomes ?a all_green)) ''suite_results'' =
       Some (JObj (map (\<lambda>s. (result_key s,
                             status_of (s \<in> set (selected (suite ?a))
                                        \<and> exit_status all_green (suite_command s) = Some 0)))
                     [Functional, Performance, Security, Validation]))"
    and "Option.bind
          (subscript (summary_report (now all_green) (suite_outcomes ?a all_green))
             ''test_execution_summary'')
          (\<lambda>s. subscript s ''total_suites'') = Some (JInt (int (length (selected (suite ?a)))))"
    by blast+
  then have "subscript r ''suite_results'' =
           Some (JObj [(''functional_tests'', JStr ''FAIL''),
                       (''performance_tests'', JStr ''FAIL''),
                       (''security_tests'', JStr ''PASS''),
                       (''data_validation_tests'', JStr ''FAIL'')])"
    and "Option.bind (subscript r ''test_execution_summary'')
            (\<lambda>s. subscript s ''total_suites'') = Some (JInt 1)"
    unfolding r by (simp_all add: status_of_def exit_status_def all_green_def)
  with mem show ?thesis by blast
qed

section \<open>Verification: throughput figures\<close>

text \<open>The three guarded rates are 0 when the elapsed time is 0, and never fault.\<close>

lemma guarded_rate_never_faults: "guarded_rate a b \<noteq> Inl err"
  by (simp add: guarded_rate_def true_div_def)

lemma guarded_rate_zero: "guarded_rate a 0 = Inr (JInt 0)"
  by (simp add: guarded_rate_def)

lemma insert_rates_at_zero:
  "insert_performance_result n 0 0 =
     Inr (JObj
       [(''test_type'', JStr ''insert_performance''),
        (''single_insert_time'', JNum 0),
        (''bulk_insert_time'', JNum 0),
        (''documents_count'', JInt n),
        (''single_insert_rate'', JInt 0),
        (''bulk_insert_rate'', JInt 0)])"
  by (simp add: insert_performance_result_def guarded_rate_zero)

lemma query_rate_at_zero:
  "iterations \<noteq> 0 \<Longrightarrow>
   query_time_entry q t t iterations =
     Inr (JObj [(''query'', JStr q), (''avg_time'', JNum 0),
                (''queries_per_second'', JInt 0)])"
  by (simp add: query_time_entry_def guarded_rate_zero true_div_def)

text \<open>
  Claim C2. Every throughput value is 0, without a division fault, when the measured
  elapsed time is 0. The concurrent operations-per-second figure divides by the elapsed
  time without a guard: at the suite's own arguments (5 threads, 50 operations each) and
  an elapsed time of 0 the computation raises \<open>ZeroDivisionError\<close>.
\<close>

theorem concurrent_rate_faults_at_zero_elapsed:
  "concurrent_operations_result 5 50 0 = Inl ZeroDivisionError"
  by (simp add: concurrent_operations_result_def true_div_def)

section \<open>Verification: the input validator\<close>

lemma str_contains_single: "str_contains [c] s \<longleftrightarrow> c \<in> set s"
  by (induction s) (auto elim: startswith.elims)

text \<open>
  Claim C5. On the five inputs of the injection test the validator returns true, true,
  false, false, false; in general it accepts exactly the strings of at most 50 characters
  that contain none of the characters \<open>$\<close>, \<open>{\<close>, \<open>}\<close>, \<open>;\<close>.
\<close>

theorem validator_accepts_plain_short_strings:
  "map validate_user_input test_inputs = [True, True, False, False, False]
   \<and> (validate_user_input x \<longleftrightarrow>
        (\<exists>s. x = Str s \<and> length s \<le> 50
             \<and> set s \<inter> set (codepoints ''${};'') = {}))"
proof -
  have "map validate_user_input test_inputs = [True, True, False, False, False]"
    by (simp add: test_inputs_def validate_user_input_def codepoints_def)
  moreover have "validate_user_input x \<longleftrightarrow>
        (\<exists>s. x = Str s \<and> length s \<le> 50 \<and> set s \<inter> set (codepoints ''${};'') = {})"
    by (cases x) (auto simp add: validate_user_input_def codepoints_def str_contains_single)
  ultimately show ?thesis by blast
qed

section \<open>Verification: the balance-mutation test\<close>

lemma map_of_dict_set:
  "map_of (dict_set k v d) k' = (if k' = k then Some v else map_of d k')"
  by (induction d) auto

lemma bind_result_Inr:
  "bind_result r f = Inr y \<longleftrightarrow> (\<exists>x. r = Inr x \<and> f x = Inr y)"
  by (cases r) (simp_all add: bind_result_def)





section \<open>Verification: result files, the dashboard and the report generator\<close>

lemma sorted_le_last:
  fixes xs :: "'a::linorder list"
  shows "sorted xs \<Longrightarrow> y \<in> set xs \<Longrightarrow> y \<le> last xs"
  by (induction xs) (auto simp add: last_ConsR)

lemma last_sort_Max:
  fixes xs :: "'a::linorder list"
  assumes "xs \<noteq> []"
  shows "last (sort xs) = Max (set xs)"
proof -
  have ne: "sort xs \<noteq> []"
    using assms by (metis length_0_conv length_sort)
  have mem: "last (sort xs) \<in> set xs"
    using last_in_set [OF ne] by simp
  have ub: "y \<le> last (sort xs)" if "y \<in> set xs" for y
    using that sorted_le_last [of "sort xs" y] by simp
  show ?thesis
    using mem ub by (intro Max_eqI [symmetric]) auto
qed

lemma latest_file_listed:
  assumes "latest_file d pre = Some f"
  shows "f \<in> set (listdir d) \<and> startswith f pre
         \<and> (\<forall>g \<in> set (listdir d). startswith g pre \<longrightarrow> g \<le> f)"
proof -
  define files where "files = filter (\<lambda>f. startswith f pre) (listdir d)"
  from assms have ne: "files \<noteq> []" and f: "f = Max (set files)"
    by (auto simp add: latest_file_def Let_def files_def split: if_splits)
  have "set files \<noteq> {}" using ne by simp
  then have "f \<in> set files" using f Max_in [of "set files"] by simp
  moreover have "g \<le> f" if "g \<in> set files" for g
    using that f by simp
  ultimately show ?thesis
    unfolding files_def by auto
qed

lemma listed_has_entry: "f \<in> set (listdir d) \<Longrightarrow> map_of d f \<noteq> None"
  by (simp add: listdir_def map_of_eq_None_iff)

lemma load_latest_outcome:
  "load_latest d pre key results =
     (case latest_file d pre of
        None \<Rightarrow> Inr results
      | Some f \<Rightarrow>
          (case file_content d f of
             None \<Rightarrow> Inl JSONDecodeError
           | Some j \<Rightarrow> Inr (dict_set key j results)))"
proof (cases "latest_file d pre")
  case None
  then show ?thesis
    by (simp add: load_latest_def latest_file_def Let_def split: if_splits)
next
  case (Some f)
  then have ne: "filter (\<lambda>f. startswith f pre) (listdir d) \<noteq> []"
    and f: "last (sort (filter (\<lambda>f. startswith f pre) (listdir d))) = f"
    by (auto simp add: latest_file_def Let_def last_sort_Max split: if_splits)
  have "map_of d f \<noteq> None"
    using latest_file_listed [OF Some] listed_has_entry by blast
  then show ?thesis
    using Some ne f
    by (auto simp add: load_latest_def Let_def load_file_def file_content_def bind_result_def
        split: option.splits)
qed

lemma dict_set_fresh: "k \<notin> fst ` set d \<Longrightarrow> dict_set k v d = d @ [(k, v)]"
  by (induction d) auto

text \<open>The guarded block of loads, for any list of categories with distinct keys.\<close>

lemma guarded_loads:
  assumes "distinct (map snd cs)" and "fst ` set acc \<inter> snd ` set cs = {}"
  shows "fst (run_steps (map (\<lambda>(pre, key). dashboard_load (Some d) pre key) cs) acc)
           = acc @ loaded_before_error d cs"
  using assms
proof (induction cs arbitrary: acc)
  case Nil
  then show ?case by simp
next
  case (Cons c cs)
  obtain pre key where c: "c = (pre, key)" by (cases c)
  have fresh: "key \<notin> fst ` set acc"
    using Cons.prems(2) by (auto simp add: c)
  show ?case
  proof (cases "latest_file d pre")
    case None
    have "fst ` set acc \<inter> snd ` set cs = {}" using Cons.prems(2) by auto
    with Cons.IH [of acc] Cons.prems(1) None show ?thesis
      by (simp add: c dashboard_load_def load_latest_outcome)
  next
    case (Some f)
    note latest = Some
    show ?thesis
    proof (cases "file_content d f")
      case None
      with latest show ?thesis
        by (simp add: c dashboard_load_def load_latest_outcome)
    next
      case (Some j)
      have d1: "distinct (map snd cs)" and k: "key \<notin> snd ` set cs"
        using Cons.prems(1) by (auto simp add: c)
      have "fst ` set (acc @ [(key, j)]) \<inter> snd ` set cs = {}"
        using Cons.prems(2) k by (auto simp add: c)
      from Cons.IH [OF d1 this] latest Some fresh show ?thesis
        by (simp add: c dashboard_load_def load_latest_outcome dict_set_fresh)
    qed
  qed
qed

lemma dashboard_steps:
  "dashboard_load_latest_results fs =
     fst (run_steps (map (\<lambda>(pre, key). dashboard_load fs pre key) dashboard_categories) [])"
  by (simp add: dashboard_load_latest_results_def dashboard_categories_def)

text \<open>
  Claim C10. The dashboard's data endpoint never raises, whatever the state of the
  reports directory: with the directory missing it serves the empty dictionary, and
  otherwise the results of the categories loaded before the first file that is not valid
  JSON.
\<close>

theorem dashboard_data_never_raises:
  "get_data fs =
     Inr (JObj (case fs of
                  None \<Rightarrow> []
                | Some d \<Rightarrow> loaded_before_error d dashboard_categories))"
proof (cases fs)
  case None
  then show ?thesis
    by (simp add: get_data_def dashboard_load_latest_results_def dashboard_load_def)
next
  case (Some d)
  have "distinct (map snd dashboard_categories)"
    by (simp add: dashboard_categories_def)
  then have "dashboard_load_latest_results (Some d) = loaded_before_error d dashboard_categories"
    using guarded_loads [of dashboard_categories "[]" d] by (simp add: dashboard_steps)
  with Some show ?thesis by (simp add: get_data_def)
qed

lemma load_if_exists_outcome:
  "load_if_exists d fname key results =
     (case map_of d fname of
        None \<Rightarrow> Inr results
      | Some None \<Rightarrow> Inl JSONDecodeError
      | Some (Some j) \<Rightarrow> Inr (dict_set key j results))"
  by (simp add: load_if_exists_def path_exists_def load_file_def bind_result_def
      split: option.splits)

lemma keys_dict_set: "fst ` set (dict_set k v d) = insert k (fst ` set d)"
proof (induction d)
  case Nil
  then show ?case by simp
next
  case (Cons kv d)
  obtain k' v' where kv: "kv = (k', v')" by (cases kv)
  show ?case
  proof (cases "k = k'")
    case True
    then show ?thesis by (simp add: kv)
  next
    case False
    then show ?thesis using Cons.IH by (simp add: kv insert_commute)
  qed
qed

theorem dashboard_data_witness:
  "get_data (Some broken_performance) = Inr (JObj [(''summary'', JObj [(''run'', JInt 2)])])
   \<and> get_data None = Inr (JObj [])"
  using dashboard_data_never_raises [of "Some broken_performance"]
    dashboard_data_never_raises [of None]
  by (simp add: broken_performance_def dashboard_categories_def latest_file_def listdir_def
      file_content_def)

text \<open>
  Claim C4, as stated, fails: the report generator does not look for the most recent
  timestamped file of a category. A directory that holds only a timestamped performance
  report gives an empty rendering context, while the dashboard finds that file.
\<close>

theorem generator_ignores_timestamped_reports:
  "latest_file only_timestamped ''performance_report_''
     = Some ''performance_report_20240101_100000.json''
   \<and> generator_load_latest_results only_timestamped = Inr []
   \<and> dashboard_load_latest_results (Some only_timestamped)
       = [(''performance'', JObj [(''results'', JArr [])])]"
  by (simp add: only_timestamped_def latest_file_def listdir_def
      generator_load_latest_results_def load_if_exists_def path_exists_def bind_result_def
      load_latest_def dashboard_load_latest_results_def dashboard_load_def load_file_def)

lemma load_if_exists_Inr:
  assumes "load_if_exists d fname key results = Inr results'"
  shows "map_of results' k =
           (if k = key \<and> file_content d fname \<noteq> None then file_content d fname
            else map_of results k)"
    and "fst ` set results' \<subseteq> insert key (fst ` set results)"
proof -
  from assms have shape: "(file_content d fname = None \<and> results' = results)
      \<or> (\<exists>j. file_content d fname = Some j \<and> results' = dict_set key j results)"
    by (auto simp add: load_if_exists_outcome file_content_def split: option.splits)
  then show "map_of results' k =
           (if k = key \<and> file_content d fname \<noteq> None then file_content d fname
            else map_of results k)"
    by (elim disjE exE conjE) (simp_all add: map_of_dict_set)
  from shape show "fst ` set results' \<subseteq> insert key (fst ` set results)"
    by (elim disjE exE conjE) (simp_all add: keys_dict_set subset_insertI)
qed

lemma load_latest_Inr:
  assumes "load_latest d pre key results = Inr results'"
  shows "map_of results' k =
           (if k = key \<and> latest_file d pre \<noteq> None
            then (case latest_file d pre of None \<Rightarrow> None | Some f \<Rightarrow> file_content d f)
            else map_of results k)"
    and "fst ` set results' \<subseteq> insert key (fst ` set results)"
proof -
  from assms have shape: "(latest_file d pre = None \<and> results' = results)
      \<or> (\<exists>f j. latest_file d pre = Some f \<and> file_content d f = Some j
                \<and> results' = dict_set key j results)"
    by (auto simp add: load_latest_outcome split: option.splits)
  then show "map_of results' k =
           (if k = key \<and> latest_file d pre \<noteq> None
            then (case latest_file d pre of None \<Rightarrow> None | Some f \<Rightarrow> file_content d f)
            else map_of results k)"
    by (elim disjE exE conjE) (simp_all add: map_of_dict_set)
  from shape show "fst ` set results' \<subseteq> insert key (fst ` set results)"
    by (elim disjE exE conjE) (simp_all add: keys_dict_set subset_insertI)
qed

text \<open>
  Claim C4, amended. The report generator reads the CRUD, performance, security and
  validation results from one fixed file name each, when that file exists; it locates
  the most recent summary file, the greatest name that starts with \<open>test_summary_\<close>;
  and it merges what it loaded into one rendering context keyed by category.
\<close>

theorem generator_loads_fixed_names_and_latest_summary:
  "generator_load_latest_results d = Inr r \<Longrightarrow>
     map_of r ''crud'' = file_content d ''crud_test_results.json''
     \<and> map_of r ''performance'' = file_content d ''performance_test_results.json''
     \<and> map_of r ''security'' = file_content d ''security_test_results.json''
     \<and> map_of r ''validation'' = file_content d ''data_validation_results.json''
     \<and> map_of r ''summary'' =
         (case latest_file d ''test_summary_'' of
            None \<Rightarrow> None
          | Some f \<Rightarrow> file_content d f)
     \<and> (\<forall>f. latest_file d ''test_summary_'' = Some f \<longrightarrow>
            f \<in> set (listdir d) \<and> startswith f ''test_summary_''
            \<and> (\<forall>g \<in> set (listdir d). startswith g ''test_summary_'' \<longrightarrow> g \<le> f))
     \<and> fst ` set r \<subseteq> {''summary'', ''validation'', ''security'', ''performance'', ''crud''}"
proof -
  assume run: "generator_load_latest_results d = Inr r"
  from run obtain r1 where
    s1: "load_if_exists d ''crud_test_results.json'' ''crud'' [] = Inr r1" and
    t1: "bind_result (load_if_exists d ''performance_test_results.json'' ''performance'' r1)
       (\<lambda>results.
     bind_result (load_if_exists d ''security_test_results.json'' ''security'' results)
       (\<lambda>results.
     bind_result (load_if_exists d ''data_validation_results.json'' ''validation'' results)
       (\<lambda>results.
     load_latest d ''test_summary_'' ''summary'' results))) = Inr r"
    unfolding generator_load_latest_results_def by (subst (asm) bind_result_Inr) (erule exE conjE)+
  from t1 obtain r2 where
    s2: "load_if_exists d ''performance_test_results.json'' ''performance'' r1 = Inr r2" and
    t2: "bind_result (load_if_exists d ''security_test_results.json'' ''security'' r2)
       (\<lambda>results.
     bind_result (load_if_exists d ''data_validation_results.json'' ''validation'' results)
       (\<lambda>results.
     load_latest d ''test_summary_'' ''summary'' results)) = Inr r"
    by (subst (asm) bind_result_Inr) (erule exE conjE)+
  from t2 obtain r3 where
    s3: "load_if_exists d ''security_test_results.json'' ''security'' r2 = Inr r3" and
    t3: "bind_result (load_if_exists d ''data_validation_results.json'' ''validation'' r3)
       (\<lambda>results.
     load_latest d ''test_summary_'' ''summary'' results) = Inr r"
    by (subst (asm) bind_result_Inr) (erule exE conjE)+
  from t3 obtain r4 where
    s4: "load_if_exists d ''data_validation_results.json'' ''validation'' r3 = Inr r4" and
    s5: "load_latest d ''test_summary_'' ''summary'' r4 = Inr r"
    by (subst (asm) bind_result_Inr) (erule exE conjE)+
  note m1 = load_if_exists_Inr(1) [OF s1] and m2 = load_if_exists_Inr(1) [OF s2]
    and m3 = load_if_exists_Inr(1) [OF s3] and m4 = load_if_exists_Inr(1) [OF s4]
    and m5 = load_latest_Inr(1) [OF s5]
  have crud: "map_of r ''crud'' = file_content d ''crud_test_results.json''"
    by (simp add: m5 m4 m3 m2 m1)
  have perf: "map_of r ''performance'' = file_content d ''performance_test_results.json''"
    by (simp add: m5 m4 m3 m2 m1)
  have sec: "map_of r ''security'' = file_content d ''security_test_results.json''"
    by (simp add: m5 m4 m3 m2 m1)
  have val: "map_of r ''validation'' = file_content d ''data_validation_results.json''"
    by (simp add: m5 m4 m3 m2 m1)
  have summ: "map_of r ''summary'' =
         (case latest_file d ''test_summary_'' of None \<Rightarrow> None | Some f \<Rightarrow> file_content d f)"
    by (simp add: m5 m4 m3 m2 m1 split: option.splits)
  note k1 = load_if_exists_Inr(2) [OF s1]
  note k2 = order_trans [OF load_if_exists_Inr(2) [OF s2] insert_mono [OF k1]]
  note k3 = order_trans [OF load_if_exists_Inr(2) [OF s3] insert_mono [OF k2]]
  note k4 = order_trans [OF load_if_exists_Inr(2) [OF s4] insert_mono [OF k3]]
  note k5 = order_trans [OF load_latest_Inr(2) [OF s5] insert_mono [OF k4]]
  have keys: "fst ` set r \<subseteq> {''summary'', ''validation'', ''security'', ''performance'', ''crud''}"
    using k5 by simp
  have greatest: "\<forall>f. latest_file d ''test_summary_'' = Some f \<longrightarrow>
            f \<in> set (listdir d) \<and> startswith f ''test_summary_''
            \<and> (\<forall>g \<in> set (listdir d). startswith g ''test_summary_'' \<longrightarrow> g \<le> f)"
    using latest_file_listed by blast
  show ?thesis
    by (intro conjI crud perf sec val summ greatest keys)
qed

theorem generator_loads_witness:
  "generator_load_latest_results fixed_names =
     Inr [(''security'', JObj [(''security_results'', JArr [])]),
          (''summary'', JObj [(''run'', JInt 2)])]
   \<and> map_of [(''security'', JObj [(''security_results'', JArr [])]),
              (''summary'', JObj [(''run'', JInt 2)])] ''summary''
       = file_content fixed_names ''test_summary_20240102_090000.json''
   \<and> latest_file fixed_names ''test_summary_'' = Some ''test_summary_20240102_090000.json''"
proof -
  have run: "generator_load_latest_results fixed_names =
     Inr [(''security'', JObj [(''security_results'', JArr [])]),
          (''summary'', JObj [(''run'', JInt 2)])]"
    by (simp add: fixed_names_def generator_load_latest_results_def load_if_exists_def
        path_exists_def bind_result_def load_latest_def load_file_def listdir_def)
  have latest: "latest_file fixed_names ''test_summary_'' = Some ''test_summary_20240102_090000.json''"
    by (simp add: latest_file_def fixed_names_def listdir_def)
  show ?thesis
    using generator_loads_fixed_names_and_latest_summary [OF run] run latest
    by simp
qed

lemma generator_loads_nothing_from_empty: "generator_load_latest_results [] = Inr []"
  by (simp add: generator_load_latest_results_def load_if_exists_def path_exists_def
      bind_result_def load_latest_def listdir_def)

text \<open>With no result file at all the HTML report is still produced: the header, the
  summary cards with their placeholders and the static overview, and no category block.\<close>

lemma html_report_without_files:
  "generate_html_report t t' [] =
     Inr (html_report_filename t',
          [Header (readable t),
           SummaryCards ''error'' (Some (JStr ''N/A'')) (Some (JStr ''0''))
             (Some (JStr ''0'')) ''success'' (Some (JStr ''0'')),
           CoverageOverview])"
  by (simp add: generate_html_report_def generator_loads_nothing_from_empty bind_result_def
      dict_has_def dict_get_def render_def summary_cards_def category_block_def)

text \<open>A category whose file was not loaded has no block in the HTML report.\<close>

lemma html_report_omits_absent_category:
  assumes "generate_html_report t t' d = Inr (fname, doc)"
    and "generator_load_latest_results d = Inr results"
    and "map_of results key = None"
  shows "CategoryBlock key j charts \<notin> set doc"
proof -
  from assms(1,2) obtain cs summary cards where
    doc: "doc = [Header (readable t), cards, CoverageOverview]
            @ category_block ''crud'' (map_of results ''crud'') []
            @ category_block ''performance'' (map_of results ''performance'') cs
            @ category_block ''security'' (map_of results ''security'') []
            @ category_block ''validation'' (map_of results ''validation'') []
            @ (case attr summary ''recommendations'' of
                 None \<Rightarrow> []
               | Some r \<Rightarrow> if truthy summary \<and> truthy r then [RecommendationsBlock r] else [])"
    and cards: "summary_cards summary = Inr cards"
    by (auto simp add: generate_html_report_def render_def bind_result_Inr)
  have no_card: "cards \<noteq> CategoryBlock key j charts"
    using cards by (auto simp add: summary_cards_def bind_result_Inr)
  have block: "CategoryBlock key j charts \<notin> set (category_block name (map_of results name) cs')"
    for name cs'
    using assms(3) by (cases "name = key") (auto simp add: category_block_def split: option.splits)
  show ?thesis
    unfolding doc using no_card block by (auto split: option.splits)
qed

text \<open>
  Claim C7. Report generation does not raise when category result files are absent, also
  when every one of them is absent. With an empty reports directory the spreadsheet
  generator writes no sheet and leaving the writer raises \<open>IndexError\<close>.
\<close>

theorem excel_report_fails_without_any_file:
  "generate_excel_report t [] = Inl IndexError"
  by (simp add: generate_excel_report_def generator_loads_nothing_from_empty bind_result_def
      excel_steps_def write_summary_sheet_def write_result_sheet_def close_writer_def)

text \<open>As soon as one sheet is written the spreadsheet is produced; here from a summary
  and the fixed-name security file, with no sheet for the absent categories.\<close>

lemma excel_report_with_some_files:
  "map fst (case generate_excel_report t fixed_names of Inr (f, sheets) \<Rightarrow> sheets | Inl err \<Rightarrow> [])
     = [''Summary'', ''Security Tests'']"
  by (simp add: generate_excel_report_def generator_load_latest_results_def load_if_exists_def
      path_exists_def bind_result_def load_latest_def load_file_def listdir_def fixed_names_def
      excel_steps_def write_summary_sheet_def write_result_sheet_def close_writer_def
      summary_sheet_def dict_get_def)

section \<open>Verification: the suite executors\<close>

lemma guarded_rate_returns: "\<exists>rate. guarded_rate a b = Inr rate"
  by (simp add: guarded_rate_def true_div_def)

lemma query_time_entry_returns:
  assumes "iterations \<noteq> 0"
  shows "\<exists>entry. query_time_entry q start_time end_time iterations = Inr entry"
proof -
  obtain rate where
    "guarded_rate 1 ((end_time - start_time) / real_of_int iterations) = Inr rate"
    using guarded_rate_returns by blast
  with assms show ?thesis
    by (simp add: query_time_entry_def true_div_def)
qed

lemma query_times_returns:
  assumes "iterations \<noteq> 0"
  shows "\<exists>entries. query_times qs iterations = Inr entries"
proof (induction qs)
  case Nil
  then show ?case by simp
next
  case (Cons q qs)
  obtain query start_time end_time where q: "q = (query, start_time, end_time)"
    by (cases q)
  obtain entry where "query_time_entry query start_time end_time iterations = Inr entry"
    using query_time_entry_returns [OF assms] by blast
  with Cons show ?case
    by (auto simp add: q bind_result_def)
qed

lemma insert_result_returns:
  "\<exists>result. insert_performance_result n a b = Inr result"
proof -
  obtain r1 r2 where "guarded_rate 100 a = Inr r1" "guarded_rate (real_of_int n) b = Inr r2"
    using guarded_rate_returns by blast
  then show ?thesis by (simp add: insert_performance_result_def)
qed

lemma concurrent_result_returns:
  "elapsed \<noteq> 0 \<Longrightarrow> \<exists>result. concurrent_operations_result n m elapsed = Inr result"
  by (simp add: concurrent_operations_result_def true_div_def)


lemma run_check_step:
  "run_check name fd ex = (category_result name fd, record_result (category_result name fd) ex)"
  by (simp add: run_check_def Let_def)

lemma record_result_fields:
  "accumulator (record_result r ex) = accumulator ex @ [r]"
  "report_files (record_result r ex) = report_files ex"
  "reports_exists (record_result r ex) = reports_exists ex"
  by (simp_all add: record_result_def)

text \<open>The report step of each executor: the accumulator goes into the report unchanged,
  with the clock reading, and the report goes to the category's file. The performance
  suite needs the \<open>reports\<close> directory to exist; the other two create it.\<close>

lemma performance_report_step:
  "generate_performance_report p ex =
     (if reports_exists ex
      then Inr (JObj [(''test_summary'',
                         JObj [(''total_tests'', JInt (int (length (accumulator ex)))),
                               (''test_timestamp'', JStr (isoformat (report_time p))),
                               (''database'', JStr performance_database)]),
                      (''results'', JArr (accumulator ex))],
                ex\<lparr>report_files := report_files ex
                     @ [(''reports/performance_report_'' @ stamp (file_time p) @ ''.json'',
                         JObj [(''test_summary'',
                                  JObj [(''total_tests'', JInt (int (length (accumulator ex)))),
                                        (''test_timestamp'', JStr (isoformat (report_time p))),
                                        (''database'', JStr performance_database)]),
                               (''results'', JArr (accumulator ex))])]\<rparr>)
      else Inl FileNotFoundError)"
  by (simp add: generate_performance_report_def write_report_def bind_result_def Let_def)

lemma security_report_step:
  "\<exists>report.
     generate_security_report p ex =
       Inr (report,
            ex\<lparr>reports_exists := True,
               report_files := report_files ex
                 @ [(''reports/security_report_'' @ stamp (security_file_time p) @ ''.json'',
                     report)]\<rparr>)
     \<and> subscript report ''test_results'' = Some (JArr (accumulator ex))
     \<and> Option.bind (subscript report ''security_test_summary'')
           (\<lambda>s. subscript s ''test_timestamp'')
         = Some (JStr (isoformat (security_report_time p)))"
  by (simp add: generate_security_report_def write_report_def make_reports_dir_def
      bind_result_def Let_def)

lemma validation_report_step:
  "\<exists>report.
     generate_validation_report p ex =
       Inr (report,
            ex\<lparr>reports_exists := True,
               report_files := report_files ex
                 @ [(''reports/validation_report_'' @ stamp (validation_file_time p) @ ''.json'',
                     report)]\<rparr>)
     \<and> subscript report ''test_results'' = Some (JArr (accumulator ex))
     \<and> Option.bind (subscript report ''validation_test_summary'')
           (\<lambda>s. subscript s ''test_timestamp'')
         = Some (JStr (isoformat (validation_report_time p)))"
  by (simp add: generate_validation_report_def write_report_def make_reports_dir_def
      bind_result_def Let_def)


lemma performance_suite_run:
  assumes "cleanup_outcome p = Inr ()"
    and "insert_times p = Inr (single_time, bulk_time)"
    and "query_clocks p = Inr clocks"
    and "concurrent_time p = Inr elapsed" and "elapsed \<noteq> 0"
    and "aggregation_runs p = Inr runs"
    and "reports_exists ex"
  shows "\<exists>report ex' r1 entries r3.
           insert_performance_result 1000 single_time bulk_time = Inr r1
           \<and> query_times clocks 50 = Inr entries
           \<and> concurrent_operations_result 5 50 elapsed = Inr r3
           \<and> run_full_performance_suite p ex = Inr (report, ex')
           \<and> accumulator ex' = accumulator ex
                @ [r1,
                   JObj [(''test_type'', JStr ''query_performance''),
                         (''query_results'', JArr entries),
                         (''total_iterations'', JInt 50)],
                   r3,
                   JObj [(''test_type'', JStr ''aggregation_performance''),
                         (''pipelines_tested'', JInt 2),
                         (''results'', JArr (aggregation_entries 0 runs))]]
           \<and> report_files ex' = report_files ex
                @ [(''reports/performance_report_'' @ stamp (file_time p) @ ''.json'', report)]
           \<and> subscript report ''results'' = Some (JArr (accumulator ex'))
           \<and> Option.bind (subscript report ''test_summary'')
                 (\<lambda>s. subscript s ''test_timestamp'')
               = Some (JStr (isoformat (report_time p)))"
proof -
  obtain r1 where r1: "insert_performance_result 1000 single_time bulk_time = Inr r1"
    using insert_result_returns by blast
  obtain entries where es: "query_times clocks 50 = Inr entries"
    using query_times_returns [of 50 clocks] by auto
  obtain r3 where r3: "concurrent_operations_result 5 50 elapsed = Inr r3"
    using concurrent_result_returns [OF assms(5)] by blast
  define r2 where "r2 = JObj [(''test_type'', JStr ''query_performance''),
                          (''query_results'', JArr entries),
                          (''total_iterations'', JInt 50)]"
  define r4 where "r4 = JObj [(''test_type'', JStr ''aggregation_performance''),
                          (''pipelines_tested'', JInt 2),
                          (''results'', JArr (aggregation_entries 0 runs))]"
  define ex4 where
    "ex4 = record_result r4 (record_result r3 (record_result r2 (record_result r1 ex)))"
  have run: "run_full_performance_suite p ex = generate_performance_report p ex4"
    using assms r1 es r3
    by (simp add: run_full_performance_suite_def test_insert_performance_def
        test_query_performance_def test_concurrent_operations_def
        test_aggregation_performance_def bind_result_def Let_def r2_def r4_def ex4_def)
  have acc: "accumulator ex4 = accumulator ex @ [r1, r2, r3, r4]"
    and files: "report_files ex4 = report_files ex"
    and dir: "reports_exists ex4"
    using assms(7) by (simp_all add: ex4_def record_result_fields)
  show ?thesis
    using r1 es r3 acc files dir
    by (simp add: run performance_report_step r2_def r4_def)
qed

lemma security_suite_run:
  "\<exists>report ex'.
     run_full_security_suite p ex = Inr (report, ex')
     \<and> accumulator ex' = accumulator ex
          @ [category_result ''Authentication Testing'' (authentication_finding p),
             category_result ''SSL/TLS Testing'' (ssl_finding p),
             category_result ''Data Encryption Testing'' (encryption_finding p),
             category_result ''NoSQL Injection Testing'' (injection_finding p),
             category_result ''Database Permissions Testing'' (permissions_finding p)]
     \<and> report_files ex' = report_files ex
          @ [(''reports/security_report_'' @ stamp (security_file_time p) @ ''.json'', report)]
     \<and> subscript report ''test_results'' = Some (JArr (accumulator ex'))
     \<and> Option.bind (subscript report ''security_test_summary'')
           (\<lambda>s. subscript s ''test_timestamp'')
         = Some (JStr (isoformat (security_report_time p)))"
proof -
  define ex5 where
    "ex5 = record_result (category_result ''Database Permissions Testing'' (permissions_finding p))
            (record_result (category_result ''NoSQL Injection Testing'' (injection_finding p))
            (record_result (category_result ''Data Encryption Testing'' (encryption_finding p))
            (record_result (category_result ''SSL/TLS Testing'' (ssl_finding p))
            (record_result (category_result ''Authentication Testing'' (authentication_finding p))
               ex))))"
  have run: "run_full_security_suite p ex = generate_security_report p ex5"
    by (simp add: run_full_security_suite_def test_authentication_def test_ssl_connection_def
        test_data_encryption_def test_injection_attacks_def test_database_permissions_def
        run_check_step ex5_def)
  have acc: "accumulator ex5 = accumulator ex
          @ [category_result ''Authentication Testing'' (authentication_finding p),
             category_result ''SSL/TLS Testing'' (ssl_finding p),
             category_result ''Data Encryption Testing'' (encryption_finding p),
             category_result ''NoSQL Injection Testing'' (injection_finding p),
             category_result ''Database Permissions Testing'' (permissions_finding p)]"
    and files: "report_files ex5 = report_files ex"
    by (simp_all add: ex5_def record_result_fields)
  from security_report_step [of p ex5] obtain report where
    "generate_security_report p ex5 =
       Inr (report,
            ex5\<lparr>reports_exists := True,
               report_files := report_files ex5
                 @ [(''reports/security_report_'' @ stamp (security_file_time p) @ ''.json'',
                     report)]\<rparr>)"
    "subscript report ''test_results'' = Some (JArr (accumulator ex5))"
    "Option.bind (subscript report ''security_test_summary'')
           (\<lambda>s. subscript s ''test_timestamp'')
         = Some (JStr (isoformat (security_report_time p)))"
    by blast
  then show ?thesis
    using acc files by (simp add: run)
qed

lemma validation_suite_run:
  assumes "validation_cleanup p = Inr ()"
    and "generated_count p = Inr n"
    and "quality_outcome p = Inr quality"
  shows "\<exists>report ex'.
     run_full_validation_suite p ex = Inr ((report, quality), ex')
     \<and> accumulator ex' = accumulator ex
          @ [category_result ''Schema Validation Testing'' (schema_finding p),
             category_result ''Data Integrity Testing'' (integrity_finding p),
             category_result ''Transaction Handling Testing'' (transaction_finding p)]
     \<and> report_files ex' = report_files ex
          @ [(''reports/validation_report_'' @ stamp (validation_file_time p) @ ''.json'',
              report)]
     \<and> subscript report ''test_results'' = Some (JArr (accumulator ex'))
     \<and> Option.bind (subscript report ''validation_test_summary'')
           (\<lambda>s. subscript s ''test_timestamp'')
         = Some (JStr (isoformat (validation_report_time p)))"
proof -
  define ex3 where
    "ex3 = record_result (category_result ''Transaction Handling Testing'' (transaction_finding p))
            (record_result (category_result ''Data Integrity Testing'' (integrity_finding p))
            (record_result (category_result ''Schema Validation Testing'' (schema_finding p))
               ex))"
  have acc: "accumulator ex3 = accumulator ex
          @ [category_result ''Schema Validation Testing'' (schema_finding p),
             category_result ''Data Integrity Testing'' (integrity_finding p),
             category_result ''Transaction Handling Testing'' (transaction_finding p)]"
    and files: "report_files ex3 = report_files ex"
    by (simp_all add: ex3_def record_result_fields)
  from validation_report_step [of p ex3] obtain report where
    gen: "generate_validation_report p ex3 =
       Inr (report,
            ex3\<lparr>reports_exists := True,
               report_files := report_files ex3
                 @ [(''reports/validation_report_'' @ stamp (validation_file_time p) @ ''.json'',
                     report)]\<rparr>)"
    and props: "subscript report ''test_results'' = Some (JArr (accumulator ex3))"
    "Option.bind (subscript report ''validation_test_summary'')
           (\<lambda>s. subscript s ''test_timestamp'')
         = Some (JStr (isoformat (validation_report_time p)))"
    by blast
  have run: "run_full_validation_suite p ex =
       Inr ((report, quality),
            ex3\<lparr>reports_exists := True,
               report_files := report_files ex3
                 @ [(''reports/validation_report_'' @ stamp (validation_file_time p) @ ''.json'',
                     report)]\<rparr>)"
    using assms gen
    by (simp add: run_full_validation_suite_def test_schema_validation_def
        test_data_integrity_def test_transaction_handling_def run_check_step ex3_def
        bind_result_def)
  show ?thesis
    using props acc files by (simp add: run)
qed

text \<open>Two runs of the performance suite that end without a report: the concurrent time
  measured as 0, and no \<open>reports\<close> directory.\<close>

lemma performance_suite_stops_at_zero_elapsed:
  "run_full_performance_suite (quick_performance\<lparr>concurrent_time := Inr 0\<rparr>)
     executor_with_reports = Inl ZeroDivisionError"
  by (simp add: run_full_performance_suite_def test_insert_performance_def
      test_query_performance_def test_concurrent_operations_def bind_result_def Let_def
      quick_performance_def insert_performance_result_def guarded_rate_def true_div_def
      query_time_entry_def concurrent_operations_result_def)

lemma performance_suite_stops_without_reports:
  "run_full_performance_suite quick_performance fresh_executor = Inl FileNotFoundError"
  by (simp add: run_full_performance_suite_def test_insert_performance_def
      test_query_performance_def test_concurrent_operations_def
      test_aggregation_performance_def bind_result_def Let_def
      quick_performance_def insert_performance_result_def guarded_rate_def true_div_def
      query_time_entry_def concurrent_operations_result_def performance_report_step
      record_result_fields fresh_executor_def record_result_def)

text \<open>
  Claim C3, as stated, fails for the functional suite: run on an empty reports directory,
  whether its tests pass or not, it leaves the directory empty, while the security suite
  leaves its report there.
\<close>

theorem functional_suite_writes_no_report:
  "crud_module_main (\<lambda>name. True) [] = (0, [])
   \<and> crud_module_main (\<lambda>name. False) [] = (0, [])
   \<and> (\<exists>report ex'.
         run_full_security_suite plain_security fresh_executor = Inr (report, ex')
         \<and> map fst (report_files ex') = [''reports/security_report_20240101_120000.json''])"
  by (simp add: crud_module_main_def run_full_security_suite_def test_authentication_def
      test_ssl_connection_def test_data_encryption_def test_injection_attacks_def
      test_database_permissions_def run_check_step generate_security_report_def
      write_report_def make_reports_dir_def bind_result_def record_result_def
      fresh_executor_def plain_security_def noon_def Let_def)

text \<open>
  Claim C3, amended. The performance, security and data-validation executors each have a
  run-full-suite operation that appends the result of every check to the in-memory
  accumulator and then writes the accumulator, with a timestamp, to
  \<open>reports/<category>_report_<timestamp>.json\<close>. The security suite does so on every
  run. The validation suite does so whenever its cleanup, its test-data generation and
  its quality check return. The performance suite does so whenever its database calls
  return, the concurrent elapsed time it measures is not 0 and the \<open>reports\<close>
  directory exists.
\<close>

theorem three_executors_accumulate_then_serialize:
  "(cleanup_outcome pp = Inr () \<and> insert_times pp = Inr (single_time, bulk_time)
      \<and> query_clocks pp = Inr clocks \<and> concurrent_time pp = Inr elapsed \<and> elapsed \<noteq> 0
      \<and> aggregation_runs pp = Inr runs \<and> reports_exists ex \<longrightarrow>
      (\<exists>report ex' r1 entries r3.
           insert_performance_result 1000 single_time bulk_time = Inr r1
           \<and> query_times clocks 50 = Inr entries
           \<and> concurrent_operations_result 5 50 elapsed = Inr r3
           \<and> run_full_performance_suite pp ex = Inr (report, ex')
           \<and> accumulator ex' = accumulator ex
                @ [r1,
                   JObj [(''test_type'', JStr ''query_performance''),
                         (''query_results'', JArr entries),
                         (''total_iterations'', JInt 50)],
                   r3,
                   JObj [(''test_type'', JStr ''aggregation_performance''),
                         (''pipelines_tested'', JInt 2),
                         (''results'', JArr (aggregation_entries 0 runs))]]
           \<and> report_files ex' = report_files ex
                @ [(''reports/performance_report_'' @ stamp (file_time pp) @ ''.json'', report)]
           \<and> subscript report ''results'' = Some (JArr (accumulator ex'))
           \<and> Option.bind (subscript report ''test_summary'')
                 (\<lambda>s. subscript s ''test_timestamp'')
               = Some (JStr (isoformat (report_time pp)))))
   \<and> (\<exists>report ex'.
         run_full_security_suite sp ex = Inr (report, ex')
         \<and> accumulator ex' = accumulator ex
              @ [category_result ''Authentication Testing'' (authentication_finding sp),
                 category_result ''SSL/TLS Testing'' (ssl_finding sp),
                 category_result ''Data Encryption Testing'' (encryption_finding sp),
                 category_result ''NoSQL Injection Testing'' (injection_finding sp),
                 category_result ''Database Permissions Testing'' (permissions_finding sp)]
         \<and> report_files ex' = report_files ex
              @ [(''reports/security_report_'' @ stamp (security_file_time sp) @ ''.json'',
                  report)]
         \<and> subscript report ''test_results'' = Some (JArr (accumulator ex'))
         \<and> Option.bind (subscript report ''security_test_summary'')
               (\<lambda>s. subscript s ''test_timestamp'')
             = Some (JStr (isoformat (security_report_time sp))))
   \<and> (validation_cleanup vp = Inr () \<and> generated_count vp = Inr n
        \<and> quality_outcome vp = Inr quality \<longrightarrow>
      (\<exists>report ex'.
         run_full_validation_suite vp ex = Inr ((report, quality), ex')
         \<and> accumulator ex' = accumulator ex
              @ [category_result ''Schema Validation Testing'' (schema_finding vp),
                 category_result ''Data Integrity Testing'' (integrity_finding vp),
                 category_result ''Transaction Handling Testing'' (transaction_finding vp)]
         \<and> report_files ex' = report_files ex
              @ [(''reports/validation_report_'' @ stamp (validation_file_time vp) @ ''.json'',
                  report)]
         \<and> subscript report ''test_results'' = Some (JArr (accumulator ex'))
         \<and> Option.bind (subscript report ''validation_test_summary'')
               (\<lambda>s. subscript s ''test_timestamp'')
             = Some (JStr (isoformat (validation_report_time vp)))))"
  using performance_suite_run [of pp single_time bulk_time clocks elapsed runs ex]
    security_suite_run [of sp ex]
    validation_suite_run [of vp n quality ex]
  by (intro conjI impI) simp_all

theorem three_executors_witness:
  "(\<exists>report ex'.
      run_full_performance_suite quick_performance executor_with_reports = Inr (report, ex')
      \<and> length (accumulator ex') = 4
      \<and> report_files ex' = [(''reports/performance_report_20240101_120000.json'', report)]
      \<and> subscript report ''results'' = Some (JArr (accumulator ex')))
   \<and> (\<exists>report ex'.
      run_full_validation_suite plain_validation executor_with_reports
        = Inr ((report, JObj []), ex')
      \<and> length (accumulator ex') = 3
      \<and> report_files ex' = [(''reports/validation_report_20240101_120000.json'', report)]
      \<and> subscript report ''test_results'' = Some (JArr (accumulator ex')))"
proof -
  have p: "cleanup_outcome quick_performance = Inr ()
      \<and> insert_times quick_performance = Inr (2, 1)
      \<and> query_clocks quick_performance = Inr [(''q'', 0, 5)]
      \<and> concurrent_time quick_performance = Inr 10 \<and> (10::real) \<noteq> 0
      \<and> aggregation_runs quick_performance = Inr [(1, 5), (2, 12)]
      \<and> reports_exists executor_with_reports"
    by (simp add: quick_performance_def executor_with_reports_def)
  have v: "validation_cleanup plain_validation = Inr ()
      \<and> generated_count plain_validation = Inr 1000
      \<and> quality_outcome plain_validation = Inr (JObj [])"
    by (simp add: plain_validation_def)
  note inst = three_executors_accumulate_then_serialize
    [where pp = quick_performance and single_time = 2 and bulk_time = 1
       and clocks = "[(''q'', 0, 5)]" and elapsed = 10 and runs = "[(1, 5), (2, 12)]"
       and ex = executor_with_reports and vp = plain_validation and n = 1000
       and quality = "JObj []"]
  from inst p obtain report ex' r1 r2 r3 r4 where
    "run_full_performance_suite quick_performance executor_with_reports = Inr (report, ex')"
    "accumulator ex' = accumulator executor_with_reports @ [r1, r2, r3, r4]"
    "report_files ex' = report_files executor_with_reports
       @ [(''reports/performance_report_'' @ stamp (file_time quick_performance) @ ''.json'',
           report)]"
    "subscript report ''results'' = Some (JArr (accumulator ex'))"
    by blast
  then have perf: "\<exists>report ex'.
      run_full_performance_suite quick_performance executor_with_reports = Inr (report, ex')
      \<and> length (accumulator ex') = 4
      \<and> report_files ex' = [(''reports/performance_report_20240101_120000.json'', report)]
      \<and> subscript report ''results'' = Some (JArr (accumulator ex'))"
    by (simp add: executor_with_reports_def quick_performance_def noon_def)
  from inst v obtain vreport vex where
    "run_full_validation_suite plain_validation executor_with_reports
       = Inr ((vreport, JObj []), vex)"
    "accumulator vex = accumulator executor_with_reports
              @ [category_result ''Schema Validation Testing'' (schema_finding plain_validation),
                 category_result ''Data Integrity Testing'' (integrity_finding plain_validation),
                 category_result ''Transaction Handling Testing''
                   (transaction_finding plain_validation)]"
    "report_files vex = report_files executor_with_reports
       @ [(''reports/validation_report_''
             @ stamp (validation_file_time plain_validation) @ ''.json'', vreport)]"
    "subscript vreport ''test_results'' = Some (JArr (accumulator vex))"
    by blast
  then have val: "\<exists>report ex'.
      run_full_validation_suite plain_validation executor_with_reports
        = Inr ((report, JObj []), ex')
      \<and> length (accumulator ex') = 3
      \<and> report_files ex' = [(''reports/validation_report_20240101_120000.json'', report)]
      \<and> subscript report ''test_results'' = Some (JArr (accumulator ex'))"
    by (simp add: executor_with_reports_def plain_validation_def noon_def)
  from perf val show ?thesis by blast
qed

end
